theory Spec2Isabelle
  imports Complex_Main
begin

section \<open>The finance assistant of helpers.py\<close>

text \<open>
  The development embeds \<^verbatim>\<open>helpers.py\<close>: the number parser \<^verbatim>\<open>parse_number\<close>, the
  reply polisher \<^verbatim>\<open>call_hf_polish\<close> / \<^verbatim>\<open>maybe_polish_and_return\<close>, the profile of
  \<^verbatim>\<open>init_profile\<close> and the conversation state machine \<^verbatim>\<open>get_response\<close>.

  Conventions of the embedding.
  \<^item> A Python \<^verbatim>\<open>str\<close> is a \<open>string\<close> holding its UTF-8 bytes. The character tests of
    the source (\<^verbatim>\<open>\d\<close>, \<^verbatim>\<open>str.lower\<close>, \<^verbatim>\<open>str.strip\<close>) are modelled on the ASCII
    range, where they are exact; bytes above 127 are neither digits nor whitespace and have
    no case. Utterances using non-ASCII digits, whitespace or capitals are outside the model.
  \<^item> A Python \<^verbatim>\<open>float\<close> is a \<open>pyfloat\<close>: an IEEE 754 double, given by its exact rational
    value, or a negative zero, an infinity or a NaN. Every arithmetic result is rounded to
    the nearest double, ties to even, as the hardware does.
  \<^item> A call returns its outcome together with the objects it may have mutated: an outcome
    \<open>Inl e\<close> is the exception \<open>e\<close> leaving the function, \<open>Inr v\<close> the return value \<open>v\<close>.
  \<^item> The mutable arguments and globals are passed and returned explicitly: the profile
    dictionary as a record, \<^verbatim>\<open>st.session_state\<close> as a record holding the one attribute
    the module uses, the environment of the polisher (token and remote service) as a record.
\<close>

subsection \<open>Exceptions\<close>

datatype error =
  ValueError | AttributeError | TypeError | IndexError | KeyError | OverflowError
  | ZeroDivisionError

subsection \<open>Characters and strings\<close>

definition is_digit :: "char \<Rightarrow> bool" where
  \<comment> \<open>\<^verbatim>\<open>\d\<close> on ASCII\<close>
  "is_digit c = (c \<in> set ''0123456789'')"

definition is_space :: "char \<Rightarrow> bool" where
  \<comment> \<open>the ASCII characters \<^verbatim>\<open>str.strip()\<close> removes: TAB, LF, VT, FF, CR, FS, GS, RS, US, SPACE\<close>
  "is_space c = (c \<in> set [CHR 0x09, CHR 0x0A, CHR 0x0B, CHR 0x0C, CHR 0x0D,
                             CHR 0x1C, CHR 0x1D, CHR 0x1E, CHR 0x1F, CHR 0x20])"

definition lower_char :: "char \<Rightarrow> char" where
  "lower_char c =
     (case map_of (zip ''ABCDEFGHIJKLMNOPQRSTUVWXYZ'' ''abcdefghijklmnopqrstuvwxyz'') c of
        Some d \<Rightarrow> d | None \<Rightarrow> c)"

definition lower :: "string \<Rightarrow> string" where
  \<comment> \<open>\<^verbatim>\<open>str.lower()\<close>\<close>
  "lower s = map lower_char s"

definition strip :: "string \<Rightarrow> string" where
  \<comment> \<open>\<^verbatim>\<open>str.strip()\<close>\<close>
  "strip s = rev (dropWhile is_space (rev (dropWhile is_space s)))"

fun startswith :: "string \<Rightarrow> string \<Rightarrow> bool" where
  \<comment> \<open>\<open>startswith s sub\<close>: \<^verbatim>\<open>s.startswith(sub)\<close>\<close>
  "startswith s [] = True"
| "startswith [] (b # sub) = False"
| "startswith (a # s) (b # sub) = (a = b \<and> startswith s sub)"

fun contains :: "string \<Rightarrow> string \<Rightarrow> bool" where
  \<comment> \<open>\<open>contains sub s\<close>: \<^verbatim>\<open>sub in s\<close> on strings\<close>
  "contains sub [] = (sub = [])"
| "contains sub (c # s) = (startswith (c # s) sub \<or> contains sub s)"

subsection \<open>Floats\<close>

datatype pyfloat = Fin rat | NegZero | PInf | NInf | NaN

text \<open>
  \<open>Fin x\<close> is the finite double of value \<open>x\<close> (\<open>Fin 0\<close> is \<^verbatim>\<open>0.0\<close>), \<open>NegZero\<close> is
  \<^verbatim>\<open>-0.0\<close>, \<open>PInf\<close> and \<open>NInf\<close> are \<^verbatim>\<open>inf\<close> and \<^verbatim>\<open>-inf\<close>, \<open>NaN\<close> is \<^verbatim>\<open>nan\<close>.
\<close>

fun ilog2 :: "nat \<Rightarrow> int" where
  \<comment> \<open>the integer part of the binary logarithm of \<open>n \<ge> 1\<close>\<close>
  "ilog2 n = (if n < 2 then 0 else 1 + ilog2 (n div 2))"

declare ilog2.simps [simp del]

definition binade :: "rat \<Rightarrow> int" where
  \<comment> \<open>for \<open>x > 0\<close>, the exponent \<open>e\<close> with \<open>2 ^ e \<le> x < 2 ^ (e + 1)\<close>\<close>
  "binade x =
     (if 1 \<le> x then ilog2 (nat \<lfloor>x\<rfloor>) else - (1 + ilog2 (nat \<lceil>1 / x\<rceil> - 1)))"

definition pow2 :: "int \<Rightarrow> rat" where
  "pow2 k = (if 0 \<le> k then 2 ^ nat k else 1 / 2 ^ nat (- k))"

definition round_half_even :: "rat \<Rightarrow> int" where
  \<comment> \<open>rounding to the nearest integer, ties to even\<close>
  "round_half_even x =
     (let f = \<lfloor>x\<rfloor>; d = x - of_int f in
      if d < 1 / 2 then f else if 1 / 2 < d then f + 1
      else if even f then f else f + 1)"

definition round_pos :: "rat \<Rightarrow> pyfloat" where
  \<comment> \<open>the double nearest to \<open>x > 0\<close>: 53 significant bits, exponent at least -1022
      (below it the doubles are subnormal, equally spaced), overflow to infinity\<close>
  "round_pos x =
     (let e = max (binade x) (- 1022);
          q = pow2 (e - 52);
          y = of_int (round_half_even (x / q)) * q
      in if pow2 1024 \<le> y then PInf else Fin y)"

fun fneg :: "pyfloat \<Rightarrow> pyfloat" where
  "fneg (Fin y) = (if y = 0 then NegZero else Fin (- y))"
| "fneg NegZero = Fin 0"
| "fneg PInf = NInf"
| "fneg NInf = PInf"
| "fneg NaN = NaN"

definition fl :: "rat \<Rightarrow> pyfloat" where
  \<comment> \<open>the double nearest to a rational number\<close>
  "fl x = (if x = 0 then Fin 0 else if 0 < x then round_pos x else fneg (round_pos (- x)))"

fun fval :: "pyfloat \<Rightarrow> rat" where
  \<comment> \<open>the value of a finite double\<close>
  "fval (Fin x) = x"
| "fval y = 0"

fun is_inf :: "pyfloat \<Rightarrow> bool" where
  "is_inf PInf = True"
| "is_inf NInf = True"
| "is_inf y = False"

fun is_zero :: "pyfloat \<Rightarrow> bool" where
  "is_zero (Fin x) = (x = 0)"
| "is_zero NegZero = True"
| "is_zero y = False"

fun sign_bit :: "pyfloat \<Rightarrow> bool" where
  "sign_bit (Fin x) = (x < 0)"
| "sign_bit NegZero = True"
| "sign_bit NInf = True"
| "sign_bit y = False"

definition signed_inf :: "bool \<Rightarrow> pyfloat" where
  "signed_inf negative = (if negative then NInf else PInf)"

definition signed_zero :: "bool \<Rightarrow> pyfloat" where
  "signed_zero negative = (if negative then NegZero else Fin 0)"

definition fmul :: "pyfloat \<Rightarrow> pyfloat \<Rightarrow> pyfloat" where
  \<comment> \<open>\<^verbatim>\<open>a * b\<close> on floats\<close>
  "fmul a b =
     (if a = NaN \<or> b = NaN then NaN
      else if is_inf a \<or> is_inf b then
        (if is_zero a \<or> is_zero b then NaN else signed_inf (sign_bit a \<noteq> sign_bit b))
      else if is_zero a \<or> is_zero b then signed_zero (sign_bit a \<noteq> sign_bit b)
      else fl (fval a * fval b))"

definition fsub :: "pyfloat \<Rightarrow> pyfloat \<Rightarrow> pyfloat" where
  \<comment> \<open>\<^verbatim>\<open>a - b\<close> on floats\<close>
  "fsub a b =
     (if a = NaN \<or> b = NaN then NaN
      else if is_inf a then (if a = b then NaN else a)
      else if is_inf b then fneg b
      else if fval a = fval b then (if a = NegZero \<and> b = Fin 0 then NegZero else Fin 0)
      else fl (fval a - fval b))"

definition py_truediv :: "pyfloat \<Rightarrow> pyfloat \<Rightarrow> error + pyfloat" where
  \<comment> \<open>\<^verbatim>\<open>a / b\<close> on floats: a zero divisor raises, whatever the dividend\<close>
  "py_truediv a b =
     (if is_zero b then Inl ZeroDivisionError
      else if a = NaN \<or> b = NaN then Inr NaN
      else if is_inf a then
        (if is_inf b then Inr NaN else Inr (signed_inf (sign_bit a \<noteq> sign_bit b)))
      else if is_inf b \<or> is_zero a then Inr (signed_zero (sign_bit a \<noteq> sign_bit b))
      else Inr (fl (fval a / fval b)))"

fun rank :: "pyfloat \<Rightarrow> int" where
  "rank NInf = - 1"
| "rank PInf = 1"
| "rank y = 0"

definition fle :: "pyfloat \<Rightarrow> pyfloat \<Rightarrow> bool" where
  \<comment> \<open>\<^verbatim>\<open>a <= b\<close> on floats: false when either is a NaN\<close>
  "fle a b =
     (a \<noteq> NaN \<and> b \<noteq> NaN \<and> (rank a < rank b \<or> (rank a = rank b \<and> fval a \<le> fval b)))"

definition flt :: "pyfloat \<Rightarrow> pyfloat \<Rightarrow> bool" where
  \<comment> \<open>\<^verbatim>\<open>a < b\<close> on floats\<close>
  "flt a b =
     (a \<noteq> NaN \<and> b \<noteq> NaN \<and> (rank a < rank b \<or> (rank a = rank b \<and> fval a < fval b)))"

definition truthy_float :: "pyfloat \<Rightarrow> bool" where
  \<comment> \<open>the truth value of a float: false for \<^verbatim>\<open>0.0\<close> and \<^verbatim>\<open>-0.0\<close> only\<close>
  "truthy_float x = (\<not> is_zero x)"

subsection \<open>The number parser\<close>

definition is_numch :: "char \<Rightarrow> bool" where
  \<comment> \<open>the character class \<^verbatim>\<open>[\d,]\<close>\<close>
  "is_numch c = (is_digit c \<or> c = CHR '','')"

definition re_search :: "string \<Rightarrow> string option" where
  \<comment> \<open>\<^verbatim>\<open>re.search(r'[\d,]+(?:\.\d+)?', text)\<close>, returning \<^verbatim>\<open>match.group(0)\<close>: the leftmost
      position where the pattern matches is the first digit or comma; the greedy class takes
      the whole run, and the optional group takes a dot with the digits after it when at
      least one digit follows.\<close>
  "re_search text =
     (let rest = dropWhile (\<lambda>c. \<not> is_numch c) text in
      if rest = [] then None
      else
        let run = takeWhile is_numch rest;
            after = dropWhile is_numch rest;
            frac = (case after of
                      [] \<Rightarrow> []
                    | c # cs \<Rightarrow>
                        if c = CHR ''.'' \<and> takeWhile is_digit cs \<noteq> []
                        then c # takeWhile is_digit cs else [])
        in Some (run @ frac))"

definition replace_commas :: "string \<Rightarrow> string" where
  \<comment> \<open>\<^verbatim>\<open>.replace(',', '')\<close>\<close>
  "replace_commas s = filter (\<lambda>c. c \<noteq> CHR '','') s"

fun digit_val :: "char \<Rightarrow> nat" where
  "digit_val c =
     (case map_of (zip ''0123456789'' [0, 1, 2, 3, 4, 5, 6, 7, 8, 9]) c of
        Some d \<Rightarrow> d | None \<Rightarrow> 0)"

definition dec_val :: "string \<Rightarrow> nat" where
  \<comment> \<open>the value of a string of decimal digits\<close>
  "dec_val s = foldl (\<lambda>acc c. 10 * acc + digit_val c) 0 s"

definition py_float :: "string \<Rightarrow> error + pyfloat" where
  \<comment> \<open>\<^verbatim>\<open>float(s)\<close> on the strings the parser can pass: digits with at most one dot.
      Python accepts \<^verbatim>\<open>"12"\<close>, \<^verbatim>\<open>"12.5"\<close>, \<^verbatim>\<open>".5"\<close>, \<^verbatim>\<open>"12."\<close> and raises ValueError on
      \<^verbatim>\<open>""\<close> and \<^verbatim>\<open>"."\<close>; the result is the double nearest to the decimal number.\<close>
  "py_float s =
     (let ip = takeWhile is_digit s; r = dropWhile is_digit s in
      case r of
        [] \<Rightarrow> if ip = [] then Inl ValueError else Inr (fl (of_nat (dec_val ip)))
      | c # fp \<Rightarrow>
          if c = CHR ''.'' \<and> list_all is_digit fp \<and> ip @ fp \<noteq> []
          then Inr (fl (of_nat (dec_val ip) + of_nat (dec_val fp) / 10 ^ length fp))
          else Inl ValueError)"

definition parse_number :: "string \<Rightarrow> error + pyfloat option" where
  \<comment> \<open>\<^verbatim>\<open>parse_number(text)\<close>: \<open>Inr None\<close> is the return value \<^verbatim>\<open>None\<close>\<close>
  "parse_number text =
     (case re_search text of
        None \<Rightarrow> Inr None
      | Some m \<Rightarrow>
          (case py_float (replace_commas m) of
             Inl e \<Rightarrow> Inl e
           | Inr x \<Rightarrow> Inr (Some x)))"

subsection \<open>Number formatting\<close>

fun dec :: "nat \<Rightarrow> string" where
  \<comment> \<open>the decimal digits of a natural number\<close>
  "dec n = (if n < 10 then [''0123456789'' ! n]
            else dec (n div 10) @ [''0123456789'' ! (n mod 10)])"

declare dec.simps [simp del]

fun commas_rev :: "string \<Rightarrow> string" where
  \<comment> \<open>a comma after every third digit, on the reversed digit string\<close>
  "commas_rev (a # b # c # d # rest) = a # b # c # CHR '','' # commas_rev (d # rest)"
| "commas_rev s = s"

definition group3 :: "string \<Rightarrow> string" where
  \<comment> \<open>the thousands separators of the format option \<^verbatim>\<open>,\<close>\<close>
  "group3 s = rev (commas_rev (rev s))"

fun fmt0 :: "pyfloat \<Rightarrow> string" where
  \<comment> \<open>\<^verbatim>\<open>f"{x:,.0f}"\<close>: the exact value rounded to an integer, ties to even\<close>
  "fmt0 (Fin v) = (if v < 0 then ''-'' else []) @ group3 (dec (nat (round_half_even \<bar>v\<bar>)))"
| "fmt0 NegZero = ''-0''"
| "fmt0 PInf = ''inf''"
| "fmt0 NInf = ''-inf''"
| "fmt0 NaN = ''nan''"

fun fmt2 :: "pyfloat \<Rightarrow> string" where
  \<comment> \<open>\<^verbatim>\<open>f"{x:,.2f}"\<close>: the exact value rounded to two decimals, ties to even\<close>
  "fmt2 (Fin v) =
     (let n = nat (round_half_even (\<bar>v\<bar> * 100)) in
      (if v < 0 then ''-'' else []) @ group3 (dec (n div 100)) @ ''.'' @
      dec (n mod 100 div 10) @ dec (n mod 10))"
| "fmt2 NegZero = ''-0.00''"
| "fmt2 PInf = ''inf''"
| "fmt2 NInf = ''-inf''"
| "fmt2 NaN = ''nan''"

fun py_int :: "pyfloat \<Rightarrow> error + int" where
  \<comment> \<open>\<^verbatim>\<open>int(x)\<close>: truncation towards zero; an infinity raises OverflowError, a NaN
      ValueError\<close>
  "py_int (Fin v) = Inr (if 0 \<le> v then \<lfloor>v\<rfloor> else \<lceil>v\<rceil>)"
| "py_int NegZero = Inr 0"
| "py_int PInf = Inl OverflowError"
| "py_int NInf = Inl OverflowError"
| "py_int NaN = Inl ValueError"

definition str_int :: "int \<Rightarrow> string" where
  \<comment> \<open>\<^verbatim>\<open>str(k)\<close> of an integer, as an f-string renders it\<close>
  "str_int k = (if k < 0 then ''-'' @ dec (nat (- k)) else dec (nat k))"

subsection \<open>The profile and the session store\<close>

record profile =
  income :: pyfloat
  expenses :: pyfloat
  risk_tolerance :: string
  conversation_state :: "string option"

text \<open>
  The record is a profile dictionary holding the four keys of \<^verbatim>\<open>init_profile\<close>, which is
  what \<^verbatim>\<open>app.py\<close> passes; \<open>None\<close> in \<open>conversation_state\<close> is Python's \<^verbatim>\<open>None\<close>. The
  integer 0 of \<^verbatim>\<open>init_profile\<close> is \<open>Fin 0\<close>: in the subtraction, the products and the
  formatting of \<^verbatim>\<open>get_response\<close> it acts as the float \<^verbatim>\<open>0.0\<close>.
\<close>

definition init_profile :: profile where
  "init_profile =
     \<lparr>income = Fin 0, expenses = Fin 0, risk_tolerance = ''medium'',
      conversation_state = None\<rparr>"

record session =
  temp_goal_amount :: "pyfloat option"

text \<open>
  \<^verbatim>\<open>st.session_state\<close>, restricted to the attribute \<^verbatim>\<open>temp_goal_amount\<close>: \<open>None\<close> when
  the attribute is absent. Reading an absent attribute of \<^verbatim>\<open>st.session_state\<close> raises
  AttributeError, and so does deleting it.
\<close>

subsection \<open>The reply polisher\<close>

datatype json =
    JNull
  | JBool bool
  | JNum rat
  | JStr string
  | JList "json list"
  | JDict "(string \<times> json) list"

datatype http_result =
    RequestException
    \<comment> \<open>\<^verbatim>\<open>requests.post\<close> raised: connection error, timeout\<close>
  | Response nat "json option"
    \<comment> \<open>a response: \<^verbatim>\<open>status_code\<close>, and what \<^verbatim>\<open>resp.json()\<close> returns (\<open>None\<close>: it raises)\<close>

record hf_env =
  HF_TOKEN :: "string option"
  post :: "string \<Rightarrow> http_result"

text \<open>
  The environment of the polisher: the module-level \<^verbatim>\<open>HF_TOKEN\<close> (\<open>None\<close> when the
  variable is unset) and the remote service, as the outcome of the one \<^verbatim>\<open>requests.post\<close>
  for a given prompt (URL, headers and generation parameters are fixed by the module).
\<close>

definition dict_get :: "(string \<times> json) list \<Rightarrow> string \<Rightarrow> json option" where
  \<comment> \<open>lookup in a decoded JSON object; of a repeated key the last value counts\<close>
  "dict_get d k = map_of (rev d) k"

fun py_in :: "string \<Rightarrow> json \<Rightarrow> error + bool" where
  \<comment> \<open>\<^verbatim>\<open>k in x\<close>: key of a dict, substring of a str, element of a list; TypeError otherwise\<close>
  "py_in k (JDict d) = Inr (dict_get d k \<noteq> None)"
| "py_in k (JStr s) = Inr (contains k s)"
| "py_in k (JList l) = Inr (JStr k \<in> set l)"
| "py_in k x = Inl TypeError"

fun py_subscript :: "json \<Rightarrow> string \<Rightarrow> error + json" where
  \<comment> \<open>\<^verbatim>\<open>x[k]\<close> for a string key \<open>k\<close>\<close>
  "py_subscript (JDict d) k = (case dict_get d k of None \<Rightarrow> Inl KeyError | Some v \<Rightarrow> Inr v)"
| "py_subscript x k = Inl TypeError"

fun best_effort :: "json \<Rightarrow> json" where
  \<comment> \<open>lines 55-60: \<^verbatim>\<open>data[0].get("generated_text")\<close> inside its own \<^verbatim>\<open>try\<close>; every
      exception (IndexError, KeyError, TypeError of \<^verbatim>\<open>data[0]\<close>, AttributeError of
      \<^verbatim>\<open>.get\<close>) leaves \<^verbatim>\<open>out = None\<close>\<close>
  "best_effort (JList (JDict d # xs)) =
     (case dict_get d ''generated_text'' of None \<Rightarrow> JNull | Some v \<Rightarrow> v)"
| "best_effort data = JNull"

fun extract_out :: "json \<Rightarrow> error + json" where
  \<comment> \<open>lines 47-60: the value of \<^verbatim>\<open>out\<close>, or the exception raised on the way\<close>
  "extract_out (JList (x # xs)) =
     (case py_in ''generated_text'' x of
        Inl e \<Rightarrow> Inl e
      | Inr True \<Rightarrow> py_subscript x ''generated_text''
      | Inr False \<Rightarrow> Inr (best_effort (JList (x # xs))))"
| "extract_out (JDict d) =
     (if dict_get d ''generated_text'' \<noteq> None then py_subscript (JDict d) ''generated_text''
      else Inr (best_effort (JDict d)))"
| "extract_out (JStr s) = Inr (JStr s)"
| "extract_out data = Inr (best_effort data)"

fun truthy :: "json \<Rightarrow> bool" where
  \<comment> \<open>Python's truth value of a decoded JSON value\<close>
  "truthy JNull = False"
| "truthy (JBool b) = b"
| "truthy (JNum x) = (x \<noteq> 0)"
| "truthy (JStr s) = (s \<noteq> [])"
| "truthy (JList l) = (l \<noteq> [])"
| "truthy (JDict d) = (d \<noteq> [])"

definition prompt :: "string \<Rightarrow> string \<Rightarrow> string" where
  "prompt core_reply user_question =
     ''You are an expert but friendly personal finance assistant. Polish and simplify the following reply so it is clear, concise, and easy to understand. Keep any numerical values or currencies unchanged.''
     @ [CHR 0x0A, CHR 0x0A] @ ''User question: '' @ user_question
     @ [CHR 0x0A, CHR 0x0A] @ ''Reply: '' @ core_reply
     @ [CHR 0x0A, CHR 0x0A] @ ''Polished reply:''"

definition call_hf_polish ::
  "hf_env \<Rightarrow> string \<Rightarrow> string \<Rightarrow> profile \<Rightarrow> string option \<times> string list" where
  \<comment> \<open>\<^verbatim>\<open>call_hf_polish(core_reply, user_question, profile)\<close>: the return value, and the
      prompts sent with \<^verbatim>\<open>requests.post\<close> during the call. The outer \<^verbatim>\<open>try\<close> turns every
      exception into the return value \<^verbatim>\<open>None\<close>.\<close>
  "call_hf_polish env core_reply user_question prof =
     (if HF_TOKEN env = None \<or> HF_TOKEN env = Some [] then (None, [])
      else
        (case post env (prompt core_reply user_question) of
           RequestException \<Rightarrow> None
         | Response status_code body \<Rightarrow>
             if status_code \<noteq> 200 then None
             else
               (case body of
                  None \<Rightarrow> None
                | Some data \<Rightarrow>
                    (case extract_out data of
                       Inl e \<Rightarrow> None
                     | Inr out \<Rightarrow>
                         if truthy out
                         then (case out of JStr s \<Rightarrow> Some (strip s) | _ \<Rightarrow> None)
                         else None)),
         [prompt core_reply user_question]))"

definition maybe_polish_and_return :: "hf_env \<Rightarrow> string \<Rightarrow> string \<Rightarrow> profile \<Rightarrow> string" where
  "maybe_polish_and_return env core_reply user_question prof =
     (case fst (call_hf_polish env core_reply user_question prof) of
        None \<Rightarrow> core_reply
      | Some polished \<Rightarrow> if polished \<noteq> [] then polished else core_reply)"

subsection \<open>The replies of the state machine\<close>

definition rupee :: string where
  \<comment> \<open>the currency prefix of the source file, as the UTF-8 bytes of its three characters\<close>
  "rupee = [CHR 0xC3, CHR 0xA2, CHR 0xE2, CHR 0x80, CHR 0x9A, CHR 0xC2, CHR 0xB9]"

definition back_hint :: string where
  \<comment> \<open>the reminder that closes the prompts of a flow\<close>
  "back_hint = ''You can also type 'back' to return to the main menu.''"

definition msg_reset :: string where
  "msg_reset = ''I've reset the conversation. How can I help you next?''"

definition msg_income_ok :: "pyfloat \<Rightarrow> string" where
  "msg_income_ok x =
     ''Great! Your monthly income is '' @ rupee @ fmt0 x @
     ''. Now, what are your total monthly expenses (rent, bills, food, etc.)? '' @ back_hint"

definition msg_income_retry :: string where
  "msg_income_retry =
     ''I couldn't understand that number. Please provide your total monthly income. '' @ back_hint"

definition msg_on_track :: string where
  "msg_on_track = ''You're doing a great job with your savings! Keep it up.''"

definition msg_below_target :: string where
  "msg_below_target = ''You're a bit below the 20% savings target. Consider trimming wants.''"

definition msg_budget ::
  "pyfloat \<Rightarrow> pyfloat \<Rightarrow> pyfloat \<Rightarrow> pyfloat \<Rightarrow> pyfloat \<Rightarrow> pyfloat \<Rightarrow> string" where
  \<comment> \<open>lines 129-138: the summary before the verdict\<close>
  "msg_budget inc exps savings needs wants saves_target =
     ''Thanks! Based on your numbers:'' @ [CHR 0x0A, CHR 0x0A] @
     ''- Income: '' @ rupee @ fmt0 inc @ [CHR 0x0A] @
     ''- Expenses: '' @ rupee @ fmt0 exps @ [CHR 0x0A] @
     ''- Potential Savings: '' @ rupee @ fmt0 savings @ '' per month'' @ [CHR 0x0A, CHR 0x0A] @
     ''Sample budget (50/30/20):'' @ [CHR 0x0A] @
     ''- Needs (50%): '' @ rupee @ fmt0 needs @ [CHR 0x0A] @
     ''- Wants (30%): '' @ rupee @ fmt0 wants @ [CHR 0x0A] @
     ''- Savings (20%): '' @ rupee @ fmt0 saves_target @ [CHR 0x0A, CHR 0x0A]"

definition msg_expenses_retry :: string where
  "msg_expenses_retry =
     ''I couldn't understand that number. Please provide your total monthly expenses. '' @ back_hint"

definition msg_goal_amount_ok :: "pyfloat \<Rightarrow> string" where
  "msg_goal_amount_ok amount =
     ''Goal amount set to '' @ rupee @ fmt0 amount @
     ''. In how many months do you want to achieve this goal? '' @ back_hint"

definition msg_goal_amount_retry :: string where
  "msg_goal_amount_retry = ''Please enter a valid target amount for your goal. '' @ back_hint"

definition msg_goal_done :: "pyfloat \<Rightarrow> int \<Rightarrow> pyfloat \<Rightarrow> string" where
  "msg_goal_done amount months monthly_savings =
     ''To reach your goal of '' @ rupee @ fmt0 amount @ '' in '' @ str_int months @
     '' months, save '' @ rupee @ fmt2 monthly_savings @ '' every month.''"

definition msg_goal_time_retry :: string where
  "msg_goal_time_retry = ''Please enter a valid number of months. '' @ back_hint"

definition msg_emergency_done :: "pyfloat \<Rightarrow> pyfloat \<Rightarrow> pyfloat \<Rightarrow> string" where
  "msg_emergency_done exps fund_3_months fund_6_months =
     ''For an emergency fund based on '' @ rupee @ fmt0 exps @
     '' monthly expenses, aim for:'' @ [CHR 0x0A, CHR 0x0A] @
     ''- 3-month fund: '' @ rupee @ fmt0 fund_3_months @ [CHR 0x0A] @
     ''- 6-month fund: '' @ rupee @ fmt0 fund_6_months @ [CHR 0x0A, CHR 0x0A] @
     ''Keep this in a liquid/higher-yield savings option.''"

definition msg_emergency_retry :: string where
  "msg_emergency_retry =
     ''I didn't catch that. Please tell me your essential monthly expenses. '' @ back_hint"

definition msg_start_budget :: string where
  "msg_start_budget =
     ''Let's create a budget. What is your total monthly income after tax? '' @ back_hint"

definition msg_start_emergency :: string where
  "msg_start_emergency =
     ''What are your essential monthly expenses (rent, food, utilities, EMIs)? '' @ back_hint"

definition msg_start_goal :: string where
  "msg_start_goal = ''What is the target amount you want to save? '' @ back_hint"

definition msg_tax :: string where
  "msg_tax =
     ''In India, you can save taxes using several sections:'' @ [CHR 0x0A, CHR 0x0A] @
     ''1. Section 80C (up to '' @ rupee @
     ''1.5 lakh): PPF, ELSS, Life Insurance, principal repayment of home loan.'' @ [CHR 0x0A] @
     ''2. Section 80D: Health insurance premium deduction.'' @ [CHR 0x0A] @
     ''3. NPS (Section 80CCD(1B)): extra deduction of '' @ rupee @ ''50,000.'' @
     [CHR 0x0A, CHR 0x0A] @ ''The best option depends on your goals and risk appetite.''"

definition msg_invest :: string where
  "msg_invest =
     ''Investment options by risk:'' @ [CHR 0x0A, CHR 0x0A] @
     ''- Low risk: FDs, PPF, Debt funds.'' @ [CHR 0x0A] @
     ''- Medium risk: Index funds, Balanced mutual funds.'' @ [CHR 0x0A] @
     ''- High risk: Direct equity, mid/small-cap funds, crypto (small allocation).'' @
     [CHR 0x0A, CHR 0x0A] @ ''What is your risk tolerance (low, medium, high)?''"

definition msg_hello :: string where
  "msg_hello =
     ''Hello! '' @
     [CHR 0xC3, CHR 0xB0, CHR 0xC5, CHR 0xB8, CHR 0xE2, CHR 0x80, CHR 0x98, CHR 0xE2, CHR 0x80, CHR 0xB9] @
     '' How can I help you with your finances today? Try: 'create a budget', 'set a goal', or 'tax'.''"

definition msg_default :: string where
  "msg_default =
     ''I'' @ [CHR 0xC3, CHR 0xA2, CHR 0xE2, CHR 0x82, CHR 0xAC, CHR 0xE2, CHR 0x84, CHR 0xA2] @
     ''m not sure about that. Try asking me to 'create a budget', set a 'savings goal', or ask about 'tax' or 'investments'.''"

subsection \<open>The conversation state machine\<close>

text \<open>
  Every \<^verbatim>\<open>return\<close> of \<^verbatim>\<open>get_response\<close> is
  \<^verbatim>\<open>return maybe_polish_and_return(core, user_input, profile)\<close>, after the branch has
  built \<^verbatim>\<open>core\<close> and updated the profile and the session store. \<open>core_reply\<close> is the
  function up to that call: its outcome is \<^verbatim>\<open>core\<close> or the exception raised on the way,
  and with it come the profile and the session store as the branch leaves them. The
  exceptions of \<^verbatim>\<open>parse_number\<close>, of the read of \<^verbatim>\<open>temp_goal_amount\<close> and of the division
  come before any update; the exception of \<^verbatim>\<open>int(months)\<close> at line 169 comes after the
  updates of lines 164-168.
\<close>

definition core_reply ::
  "session \<Rightarrow> profile \<Rightarrow> string \<Rightarrow> (error + string) \<times> profile \<times> session" where
  "core_reply st prof user_input =
     (let raw_text = lower user_input;
          state = conversation_state prof
      in
      if strip raw_text = ''back'' then
        (Inr msg_reset, prof\<lparr>conversation_state := None\<rparr>, st)
      else if state = Some ''getting_income_for_budget'' then
        (case parse_number user_input of
           Inl e \<Rightarrow> (Inl e, prof, st)
         | Inr None \<Rightarrow> (Inr msg_income_retry, prof, st)
         | Inr (Some inc) \<Rightarrow>
             if truthy_float inc then
               (Inr (msg_income_ok inc),
                prof\<lparr>income := inc,
                     conversation_state := Some ''getting_expenses_for_budget''\<rparr>, st)
             else (Inr msg_income_retry, prof, st))
      else if state = Some ''getting_expenses_for_budget'' then
        (case parse_number user_input of
           Inl e \<Rightarrow> (Inl e, prof, st)
         | Inr None \<Rightarrow> (Inr msg_expenses_retry, prof, st)
         | Inr (Some exps) \<Rightarrow>
             if truthy_float exps then
               (let savings = fsub (income prof) exps;
                    needs = fmul (income prof) (fl (1 / 2));
                    wants = fmul (income prof) (fl (3 / 10));
                    saves_target = fmul (income prof) (fl (1 / 5))
                in (Inr (msg_budget (income prof) exps savings needs wants saves_target @
                          (if fle saves_target savings then msg_on_track else msg_below_target)),
                    prof\<lparr>expenses := exps, conversation_state := None\<rparr>, st))
             else (Inr msg_expenses_retry, prof, st))
      else if state = Some ''getting_goal_amount'' then
        (case parse_number user_input of
           Inl e \<Rightarrow> (Inl e, prof, st)
         | Inr None \<Rightarrow> (Inr msg_goal_amount_retry, prof, st)
         | Inr (Some amount) \<Rightarrow>
             if truthy_float amount then
               (Inr (msg_goal_amount_ok amount),
                prof\<lparr>conversation_state := Some ''getting_goal_time''\<rparr>,
                st\<lparr>temp_goal_amount := Some amount\<rparr>)
             else (Inr msg_goal_amount_retry, prof, st))
      else if state = Some ''getting_goal_time'' then
        (case parse_number user_input of
           Inl e \<Rightarrow> (Inl e, prof, st)
         | Inr None \<Rightarrow> (Inr msg_goal_time_retry, prof, st)
         | Inr (Some months) \<Rightarrow>
             if truthy_float months \<and> flt (Fin 0) months then
               (case temp_goal_amount st of
                  None \<Rightarrow> (Inl AttributeError, prof, st)
                | Some amount \<Rightarrow>
                    (case py_truediv amount months of
                       Inl e \<Rightarrow> (Inl e, prof, st)
                     | Inr monthly_savings \<Rightarrow>
                         (case py_int months of
                            Inl e \<Rightarrow>
                              (Inl e, prof\<lparr>conversation_state := None\<rparr>,
                               st\<lparr>temp_goal_amount := None\<rparr>)
                          | Inr k \<Rightarrow>
                              (Inr (msg_goal_done amount k monthly_savings),
                               prof\<lparr>conversation_state := None\<rparr>,
                               st\<lparr>temp_goal_amount := None\<rparr>))))
             else (Inr msg_goal_time_retry, prof, st))
      else if state = Some ''getting_emergency_expenses'' then
        (case parse_number user_input of
           Inl e \<Rightarrow> (Inl e, prof, st)
         | Inr None \<Rightarrow> (Inr msg_emergency_retry, prof, st)
         | Inr (Some exps) \<Rightarrow>
             if truthy_float exps then
               (Inr (msg_emergency_done exps (fmul exps (Fin 3)) (fmul exps (Fin 6))),
                prof\<lparr>conversation_state := None\<rparr>, st)
             else (Inr msg_emergency_retry, prof, st))
      else if contains ''budget'' raw_text \<or> contains ''plan'' raw_text then
        (Inr msg_start_budget,
         prof\<lparr>conversation_state := Some ''getting_income_for_budget''\<rparr>, st)
      else if contains ''emergency fund'' raw_text \<or> contains ''emergency'' raw_text then
        (Inr msg_start_emergency,
         prof\<lparr>conversation_state := Some ''getting_emergency_expenses''\<rparr>, st)
      else if contains ''goal'' raw_text then
        (Inr msg_start_goal, prof\<lparr>conversation_state := Some ''getting_goal_amount''\<rparr>, st)
      else if contains ''tax'' raw_text then (Inr msg_tax, prof, st)
      else if contains ''invest'' raw_text then (Inr msg_invest, prof, st)
      else if contains ''hello'' raw_text \<or> contains ''hi'' raw_text then
        (Inr msg_hello, prof, st)
      else (Inr msg_default, prof, st))"

definition get_response ::
  "hf_env \<Rightarrow> session \<Rightarrow> profile \<Rightarrow> string \<Rightarrow> (error + string) \<times> profile \<times> session" where
  \<comment> \<open>\<^verbatim>\<open>get_response(user_input, profile)\<close>: the reply or the exception, with the profile
      and the session store as the call leaves them\<close>
  "get_response env st prof user_input =
     (case core_reply st prof user_input of
        (Inl e, prof', st') \<Rightarrow> (Inl e, prof', st')
      | (Inr core, prof', st') \<Rightarrow>
          (Inr (maybe_polish_and_return env core user_input prof'), prof', st'))"

definition flow_states :: "string list" where
  \<comment> \<open>the five state tags \<^verbatim>\<open>get_response\<close> dispatches on\<close>
  "flow_states =
     [''getting_income_for_budget'', ''getting_expenses_for_budget'', ''getting_goal_amount'',
      ''getting_goal_time'', ''getting_emergency_expenses'']"

definition no_hf :: hf_env where
  \<comment> \<open>an environment without \<^verbatim>\<open>HF_TOKEN\<close>: the polisher makes no call\<close>
  "no_hf = \<lparr>HF_TOKEN = None, post = (\<lambda>p. RequestException)\<rparr>"

definition hf_replying :: "json \<Rightarrow> hf_env" where
  \<comment> \<open>an environment with a token, whose service answers every request with status 200
      and the given payload\<close>
  "hf_replying data = \<lparr>HF_TOKEN = Some ''hf_token'', post = (\<lambda>p. Response 200 (Some data))\<rparr>"

definition reprompt_of :: "string \<Rightarrow> string" where
  \<comment> \<open>the reprompt of each flow state: the \<^verbatim>\<open>else\<close> branches at lines 116, 145, 156, 172, 189\<close>
  "reprompt_of s =
     (if s = ''getting_income_for_budget'' then msg_income_retry
      else if s = ''getting_expenses_for_budget'' then msg_expenses_retry
      else if s = ''getting_goal_amount'' then msg_goal_amount_retry
      else if s = ''getting_goal_time'' then msg_goal_time_retry
      else msg_emergency_retry)"

definition in_state :: "string \<Rightarrow> profile" where
  \<comment> \<open>the fresh profile, put into a flow state\<close>
  "in_state s = init_profile\<lparr>conversation_state := Some s\<rparr>"

definition no_pending :: session where
  \<comment> \<open>a session store without \<^verbatim>\<open>temp_goal_amount\<close>\<close>
  "no_pending = \<lparr>temp_goal_amount = None\<rparr>"

subsection \<open>Payload shapes and hosts\<close>

fun generated_text_field :: "json \<Rightarrow> json option" where
  \<comment> \<open>the generated-text field in the two payload shapes of the specification: a direct
      field of an object, and a field of the first element of a list\<close>
  "generated_text_field (JDict d) = dict_get d ''generated_text''"
| "generated_text_field (JList (JDict d # xs)) = dict_get d ''generated_text''"
| "generated_text_field data = None"

fun is_bare_string :: "json \<Rightarrow> bool" where
  "is_bare_string (JStr s) = True"
| "is_bare_string data = False"

record world =
  stores :: "nat \<Rightarrow> session"
  profiles :: "nat \<Rightarrow> profile"

text \<open>
  A host process: the session stores (one \<^verbatim>\<open>st.session_state\<close> for each session) and the
  Profile instances, each under its address.
\<close>

definition turn ::
  "hf_env \<Rightarrow> nat \<Rightarrow> nat \<Rightarrow> string \<Rightarrow> world \<Rightarrow> (error + string) \<times> world" where
  \<comment> \<open>one turn in the manner of \<^verbatim>\<open>app.py\<close>, line 216: \<^verbatim>\<open>get_response\<close> is called on the
      Profile instance \<open>pid\<close> while the session store \<open>sid\<close> is the ambient
      \<^verbatim>\<open>st.session_state\<close>; both are left as the call leaves them\<close>
  "turn env sid pid user_input w =
     (case get_response env (stores w sid) (profiles w pid) user_input of
        (outcome, prof', st') \<Rightarrow>
          (outcome, w\<lparr>stores := (stores w)(sid := st'), profiles := (profiles w)(pid := prof')\<rparr>))"

definition goal_world :: world where
  \<comment> \<open>conversation 1 waits for its months with 500 pending in store 1, conversation 2 has
      been asked for its emergency expenses, every other conversation for its goal amount;
      no other store holds a pending amount\<close>
  "goal_world =
     \<lparr>stores = (\<lambda>sid. if sid = 1 then \<lparr>temp_goal_amount = Some (Fin 500)\<rparr> else no_pending),
      profiles = (\<lambda>pid. if pid = 1 then in_state ''getting_goal_time''
                          else if pid = 2 then in_state ''getting_emergency_expenses''
                          else in_state ''getting_goal_amount'')\<rparr>"

section \<open>Properties\<close>

subsection \<open>Evaluation\<close>

lemma floor_num_div: "\<lfloor>(numeral a :: rat) / numeral b\<rfloor> = numeral a div numeral b"
  using floor_divide_of_int_eq[of "numeral a" "numeral b", where ?'a = rat] by simp

lemma floor_one_div: "\<lfloor>(1 :: rat) / numeral b\<rfloor> = 1 div numeral b"
  using floor_divide_of_int_eq[of 1 "numeral b", where ?'a = rat] by simp

lemma ceiling_num_div:
  "\<lceil>(numeral a :: rat) / numeral b\<rceil> = - ((- numeral a) div numeral b)"
  using floor_divide_of_int_eq[of "- numeral a" "numeral b", where ?'a = rat]
  by (simp add: ceiling_def)

lemma ilog2_num:
  "ilog2 (numeral k) = (if (numeral k :: nat) < 2 then 0 else 1 + ilog2 (numeral k div 2))"
  "ilog2 0 = 0" "ilog2 (Suc 0) = 0"
  by (simp_all add: ilog2.simps[of "numeral k"] ilog2.simps[of 0] ilog2.simps[of "Suc 0"])

lemma dec_num:
  "dec (numeral k) = (if (numeral k :: nat) < 10 then [''0123456789'' ! numeral k]
            else dec (numeral k div 10) @ [''0123456789'' ! (numeral k mod 10)])"
  "dec 0 = ''0''" "dec (Suc 0) = ''1''"
  by (simp_all add: dec.simps[of "numeral k"] dec.simps[of 0] dec.simps[of "Suc 0"])

lemmas ev_fl = fl_def round_pos_def binade_def pow2_def ilog2_num round_half_even_def Let_def
  floor_num_div floor_one_div ceiling_num_div

lemmas ev_parse = parse_number_def re_search_def replace_commas_def py_float_def dec_val_def
  is_numch_def is_digit_def ev_fl

lemmas ev_text = strip_def lower_def lower_char_def is_space_def

lemmas ev_fmt = group3_def dec_num str_int_def round_half_even_def Let_def
  floor_num_div floor_one_div ceiling_num_div

lemmas ev_ops = fmul_def fsub_def py_truediv_def fle_def flt_def truthy_float_def
  signed_inf_def signed_zero_def

lemma fl_consts:
  "fl (1 / 2) = Fin (1 / 2)"
  "fl (3 / 10) = Fin (5404319552844595 / 18014398509481984)"
  "fl (1 / 5) = Fin (3602879701896397 / 18014398509481984)"
  by (simp_all add: ev_fl)

subsection \<open>Strings and the parser\<close>

lemma startswith_self: "startswith s s"
  by (induction s) simp_all

lemma contains_self: "contains sub sub"
  by (cases sub) (simp_all add: startswith_self)

lemma contains_appendI: "contains sub ys \<Longrightarrow> contains sub (xs @ ys)"
  by (induction xs) simp_all

lemma contains_skip: "x \<notin> set pre \<Longrightarrow> contains (x # rest) (pre @ t) = contains (x # rest) t"
  by (induction pre) auto

lemma contains_hd: "contains (x # rest) s \<Longrightarrow> x \<in> set s"
  by (induction s) auto

lemma numch_cases: "is_numch c \<Longrightarrow> c \<in> set ''0123456789,''"
  by (auto simp: is_numch_def is_digit_def)

lemma numch_not_space: "is_numch c \<Longrightarrow> \<not> is_space c"
  by (auto simp: is_numch_def is_digit_def is_space_def)

lemma lower_fix: "c \<in> set ''0123456789,'' \<Longrightarrow> lower_char c = c"
  unfolding lower_char_def by (simp, elim disjE) simp_all

lemma numch_lower: "is_numch c \<Longrightarrow> lower_char c = c"
  by (rule lower_fix) (rule numch_cases)

lemma in_dropWhile: "c \<in> set s \<Longrightarrow> \<not> P c \<Longrightarrow> c \<in> set (dropWhile P s)"
  by (induction s) auto

lemma in_strip: "c \<in> set s \<Longrightarrow> \<not> is_space c \<Longrightarrow> c \<in> set (strip s)"
  by (simp add: strip_def in_dropWhile)

text \<open>A text without digits and commas has no match, and the parser returns \<^verbatim>\<open>None\<close>.\<close>

lemma no_numch_parse: "\<forall>c\<in>set u. \<not> is_numch c \<Longrightarrow> parse_number u = Inr None"
proof -
  assume "\<forall>c\<in>set u. \<not> is_numch c"
  then have "dropWhile (\<lambda>c. \<not> is_numch c) u = []" by simp
  then show ?thesis by (simp add: parse_number_def re_search_def)
qed

lemma strip_lower_no_numch:
  assumes "strip (lower u) = w" and "\<forall>c\<in>set w. \<not> is_numch c"
  shows "\<forall>c\<in>set u. \<not> is_numch c"
proof
  fix c assume c: "c \<in> set u"
  show "\<not> is_numch c"
  proof
    assume n: "is_numch c"
    have "lower_char c \<in> set (lower u)" using c by (simp add: lower_def)
    then have "c \<in> set (lower u)" using numch_lower[OF n] by simp
    then have "c \<in> set (strip (lower u))" using n by (simp add: in_strip numch_not_space)
    then show False using assms n by auto
  qed
qed

lemma back_parse_None: "strip (lower u) = ''back'' \<Longrightarrow> parse_number u = Inr None"
  by (rule no_numch_parse, erule strip_lower_no_numch) (simp add: is_numch_def is_digit_def)

lemma budget_parse_None: "strip (lower u) = ''budget'' \<Longrightarrow> parse_number u = Inr None"
  by (rule no_numch_parse, erule strip_lower_no_numch) (simp add: is_numch_def is_digit_def)

text \<open>The parser returns a double that is zero, positive or infinite, never \<^verbatim>\<open>-0.0\<close>.\<close>

lemma round_half_even_nonneg: "0 \<le> x \<Longrightarrow> 0 \<le> round_half_even x"
proof -
  assume "0 \<le> x"
  then have "0 \<le> \<lfloor>x\<rfloor>" by simp
  then show ?thesis by (simp add: round_half_even_def Let_def)
qed

lemma pow2_pos: "0 < pow2 k"
  by (simp add: pow2_def)

lemma round_pos_cases: "0 < x \<Longrightarrow> round_pos x = PInf \<or> (\<exists>y\<ge>0. round_pos x = Fin y)"
proof -
  assume x: "0 < x"
  let ?q = "pow2 (max (binade x) (- 1022) - 52)"
  have "0 \<le> x / ?q" using x pow2_pos[of "max (binade x) (- 1022) - 52"] by simp
  then have "0 \<le> of_int (round_half_even (x / ?q)) * ?q"
    using round_half_even_nonneg[of "x / ?q"] pow2_pos[of "max (binade x) (- 1022) - 52"]
    by simp
  then show ?thesis by (simp add: round_pos_def Let_def)
qed

lemma fl_nonneg_cases: "0 \<le> x \<Longrightarrow> fl x = PInf \<or> (\<exists>y\<ge>0. fl x = Fin y)"
  using round_pos_cases[of x] by (cases "x = 0") (auto simp add: fl_def)

lemma py_float_cases: "py_float s = Inr n \<Longrightarrow> n = PInf \<or> (\<exists>y\<ge>0. n = Fin y)"
proof -
  assume a: "py_float s = Inr n"
  let ?ip = "takeWhile is_digit s" and ?fp = "tl (dropWhile is_digit s)"
  have 1: "fl (of_nat (dec_val ?ip)) = PInf \<or> (\<exists>y\<ge>0. fl (of_nat (dec_val ?ip)) = Fin y)"
    by (rule fl_nonneg_cases) simp
  have 2: "fl (of_nat (dec_val ?ip) + of_nat (dec_val ?fp) / 10 ^ length ?fp) = PInf
          \<or> (\<exists>y\<ge>0. fl (of_nat (dec_val ?ip) + of_nat (dec_val ?fp) / 10 ^ length ?fp) = Fin y)"
    by (rule fl_nonneg_cases) simp
  from a 1 2 show ?thesis
    by (auto simp add: py_float_def Let_def split: list.splits if_splits)
qed

lemma parse_number_cases:
  "parse_number u = Inr (Some n) \<Longrightarrow> n = PInf \<or> (\<exists>y\<ge>0. n = Fin y)"
  by (auto simp add: parse_number_def split: option.splits sum.splits dest: py_float_cases)

lemma parse_truthy: "parse_number u = Inr (Some n) \<Longrightarrow> truthy_float n = (n \<noteq> Fin 0)"
  by (drule parse_number_cases) (auto simp add: truthy_float_def)

lemma no_hf_polish: "maybe_polish_and_return no_hf core q p = core"
  by (simp add: maybe_polish_and_return_def call_hf_polish_def no_hf_def)

lemmas ev_run = get_response_def core_reply_def init_profile_def in_state_def no_hf_polish
  no_pending_def

subsection \<open>The double arithmetic at work\<close>

text \<open>
  The goal amount 2.03 over 2 months: the double nearest to 2.03 lies below it, its half is
  below 1.015, and the monthly amount is printed as 1.01.
\<close>

lemma goal_schedule_rounds_in_doubles:
  "parse_number ''2.03'' = Inr (Some (Fin (4571153621781053 / 2251799813685248)))
   \<and> get_response no_hf \<lparr>temp_goal_amount = Some (Fin (4571153621781053 / 2251799813685248))\<rparr>
        (in_state ''getting_goal_time'') ''2''
     = (Inr (''To reach your goal of '' @
             [CHR 0xC3, CHR 0xA2, CHR 0xE2, CHR 0x80, CHR 0x9A, CHR 0xC2, CHR 0xB9] @
             ''2 in 2 months, save '' @
             [CHR 0xC3, CHR 0xA2, CHR 0xE2, CHR 0x80, CHR 0x9A, CHR 0xC2, CHR 0xB9] @
             ''1.01 every month.''),
        init_profile, no_pending)"
  by (simp add: ev_run ev_parse ev_text ev_ops ev_fl ev_fmt msg_goal_done_def rupee_def)

text \<open>
  A number of 310 digits is beyond the largest double and parses as \<^verbatim>\<open>inf\<close>. As a number
  of months it passes the guard of line 161, the monthly amount is \<^verbatim>\<open>0.0\<close>, lines 164-168
  clear the conversation state and the pending amount, and \<^verbatim>\<open>int(months)\<close> at line 169
  then raises OverflowError.
\<close>

lemma parse_number_overflows:
  "parse_number
     ''1000000000000000000000000000000000000000000000000000000000000000000000000000000000000000000000000000000000000000000000000000000000000000000000000000000000000000000000000000000000000000000000000000000000000000000000000000000000000000000000000000000000000000000000000000000000000000000000000000000000000000000000''
   = Inr (Some PInf)"
  by (simp add: ev_parse ev_text)

lemma goal_time_overflow_after_clear:
  "get_response no_hf \<lparr>temp_goal_amount = Some (Fin 500)\<rparr> (in_state ''getting_goal_time'')
     ''1000000000000000000000000000000000000000000000000000000000000000000000000000000000000000000000000000000000000000000000000000000000000000000000000000000000000000000000000000000000000000000000000000000000000000000000000000000000000000000000000000000000000000000000000000000000000000000000000000000000000000000000''
   = (Inl OverflowError, init_profile, no_pending)"
  using parse_number_overflows
  by (simp add: get_response_def core_reply_def init_profile_def in_state_def no_pending_def
      ev_text ev_ops)

subsection \<open>Totality of the entry point\<close>

text \<open>
  Claim C1 asks that \<^verbatim>\<open>get_response\<close> returns a reply for every utterance and every
  reachable profile. The code does not: from the fresh profile, the utterance
  \<^verbatim>\<open>create a budget\<close> starts the budget flow, and the answer \<^verbatim>\<open>hello, there\<close> then makes
  \<^verbatim>\<open>parse_number\<close> match the lone comma and call \<^verbatim>\<open>float("")\<close>: the ValueError leaves
  \<^verbatim>\<open>get_response\<close>, with the profile still in the flow.
\<close>

theorem get_response_raises_on_comma:
  "get_response no_hf no_pending init_profile ''create a budget''
     = (Inr msg_start_budget, in_state ''getting_income_for_budget'', no_pending)
   \<and> get_response no_hf no_pending (in_state ''getting_income_for_budget'') ''hello, there''
     = (Inl ValueError, in_state ''getting_income_for_budget'', no_pending)"
  by (simp add: ev_run ev_parse ev_text)

subsection \<open>The number parser on commas\<close>

text \<open>
  Claim C3 asks that \<^verbatim>\<open>parse_number\<close> returns none on every text without digits, and the
  value of a comma-grouped decimal whatever words stand next to it. The code raises
  ValueError on the text \<^verbatim>\<open>,\<close>, which has no digit, and on \<^verbatim>\<open>Well, 12,500.50\<close>, where the
  comma after the first word is the leftmost match.
\<close>

theorem parse_number_raises_on_comma:
  "parse_number '','' = Inl ValueError \<and> parse_number ''Well, 12,500.50'' = Inl ValueError"
  by (simp add: ev_parse)

subsection \<open>The goal-time step without a pending amount\<close>

text \<open>
  Claim C4 asks for a reprompt when a valid number of months arrives in state
  \<^verbatim>\<open>getting_goal_time\<close> and no goal amount is stored. The code reads
  \<^verbatim>\<open>st.session_state.temp_goal_amount\<close> unguarded, and the AttributeError leaves
  \<^verbatim>\<open>get_response\<close>, whatever the polisher's environment.
\<close>

theorem goal_time_without_amount_raises:
  "parse_number ''12'' = Inr (Some (Fin 12))
   \<and> get_response env no_pending (in_state ''getting_goal_time'') ''12''
       = (Inl AttributeError, in_state ''getting_goal_time'', no_pending)"
  by (simp add: ev_run ev_parse ev_text ev_ops)

subsection \<open>The universal cancel\<close>

text \<open>
  Claim C2 as stated also asks that \<^verbatim>\<open>back\<close> clears the pending goal amount. The branch
  at lines 103-106 sets \<^verbatim>\<open>conversation_state\<close> to \<^verbatim>\<open>None\<close> and touches nothing else: a
  goal amount of 5000 stored by the goal flow is still in the session store after \<^verbatim>\<open>back\<close>.
\<close>

theorem back_keeps_pending_amount:
  "get_response no_hf \<lparr>temp_goal_amount = Some (Fin 5000)\<rparr> (in_state ''getting_goal_time'')
      ''back''
     = (Inr ''I've reset the conversation. How can I help you next?'', init_profile,
        \<lparr>temp_goal_amount = Some (Fin 5000)\<rparr>)"
  by (simp add: ev_run ev_text msg_reset_def)

text \<open>
  Claim C2, amended: for every profile, whatever its conversation state, and every utterance
  that equals \<^verbatim>\<open>back\<close> after lower-casing and stripping, \<^verbatim>\<open>get_response\<close> returns normally,
  its reply is the (possibly polished) reset acknowledgement, the profile is the old one with
  \<^verbatim>\<open>conversation_state\<close> cleared, and the session store is returned as it was.
\<close>

theorem back_resets_state:
  assumes "strip (lower u) = ''back''"
  shows "get_response env st p u
     = (Inr (maybe_polish_and_return env msg_reset u (p\<lparr>conversation_state := None\<rparr>)),
        p\<lparr>conversation_state := None\<rparr>, st)"
  using assms by (simp add: get_response_def core_reply_def)

text \<open>
  The amended claim at the utterance \<^verbatim>\<open>"  BaCk "\<close>, in the emergency flow.
\<close>

theorem back_resets_state_witness:
  "strip (lower ''  BaCk '') = ''back''
   \<and> get_response no_hf \<lparr>temp_goal_amount = Some (Fin 7)\<rparr>
        (in_state ''getting_emergency_expenses'') ''  BaCk ''
     = (Inr ''I've reset the conversation. How can I help you next?'', init_profile,
        \<lparr>temp_goal_amount = Some (Fin 7)\<rparr>)"
  using back_resets_state[of "''  BaCk ''" no_hf "\<lparr>temp_goal_amount = Some (Fin 7)\<rparr>"
      "in_state ''getting_emergency_expenses''"]
  by (simp add: ev_text no_hf_polish in_state_def init_profile_def msg_reset_def)

subsection \<open>Dispatch in an active flow\<close>

lemma flow_cases:
  "s \<in> set flow_states \<Longrightarrow>
     s = ''getting_income_for_budget'' \<or> s = ''getting_expenses_for_budget''
     \<or> s = ''getting_goal_amount'' \<or> s = ''getting_goal_time''
     \<or> s = ''getting_emergency_expenses''"
  by (simp add: flow_states_def)

lemma core_reply_flow:
  assumes "conversation_state p = Some s" and "s \<in> set flow_states"
    and "strip (lower u1) \<noteq> ''back''" and "strip (lower u2) \<noteq> ''back''"
    and "parse_number u1 = parse_number u2"
  shows "core_reply st p u1 = core_reply st p u2"
  using flow_cases[OF assms(2)] assms(1,3,4,5)
  by (elim disjE) (simp_all add: core_reply_def)

text \<open>
  Claim C6: when the conversation state is one of the five flow tags and the utterance is not
  \<^verbatim>\<open>back\<close>, the keyword intents play no part. First, the rule-based reply and the state it
  leaves depend on the utterance through \<^verbatim>\<open>parse_number\<close> alone: two utterances with the
  same parse get the same result, whatever keywords they hold. Second, the utterance
  \<^verbatim>\<open>budget\<close> (in any case, with surrounding whitespace) gets the reprompt of the current
  state, and the profile and the session store stay as they were.
\<close>

theorem active_flow_ignores_keywords:
  assumes "conversation_state p = Some s" and "s \<in> set flow_states"
  shows "(strip (lower u1) \<noteq> ''back'' \<and> strip (lower u2) \<noteq> ''back''
            \<and> parse_number u1 = parse_number u2 \<longrightarrow>
            core_reply st p u1 = core_reply st p u2)
       \<and> (strip (lower u) = ''budget'' \<longrightarrow>
            get_response env st p u
              = (Inr (maybe_polish_and_return env (reprompt_of s) u p), p, st))"
proof (intro conjI impI)
  assume "strip (lower u1) \<noteq> ''back'' \<and> strip (lower u2) \<noteq> ''back''
            \<and> parse_number u1 = parse_number u2"
  then show "core_reply st p u1 = core_reply st p u2"
    using core_reply_flow[OF assms, of u1 u2 st] by blast
next
  assume b: "strip (lower u) = ''budget''"
  then have nb: "strip (lower u) \<noteq> ''back''" by simp
  have pn: "parse_number u = Inr None" using b by (rule budget_parse_None)
  show "get_response env st p u = (Inr (maybe_polish_and_return env (reprompt_of s) u p), p, st)"
    using flow_cases[OF assms(2)] nb pn assms(1)
    by (elim disjE) (simp_all add: get_response_def core_reply_def reprompt_of_def)
qed

text \<open>
  In state \<^verbatim>\<open>getting_goal_time\<close>: \<^verbatim>\<open>budget\<close> and \<^verbatim>\<open>hello there\<close> get the same result, and
  \<^verbatim>\<open>" Budget"\<close> gets the reprompt for months.
\<close>

theorem active_flow_ignores_keywords_witness:
  "conversation_state (in_state ''getting_goal_time'') = Some ''getting_goal_time''
   \<and> ''getting_goal_time'' \<in> set flow_states
   \<and> strip (lower ''budget'') \<noteq> ''back'' \<and> strip (lower ''hello there'') \<noteq> ''back''
   \<and> parse_number ''budget'' = parse_number ''hello there''
   \<and> core_reply no_pending (in_state ''getting_goal_time'') ''budget''
       = core_reply no_pending (in_state ''getting_goal_time'') ''hello there''
   \<and> strip (lower '' Budget'') = ''budget''
   \<and> get_response no_hf no_pending (in_state ''getting_goal_time'') '' Budget''
       = (Inr ''Please enter a valid number of months. You can also type 'back' to return to the main menu.'',
          in_state ''getting_goal_time'', no_pending)"
proof -
  have h1: "conversation_state (in_state ''getting_goal_time'') = Some ''getting_goal_time''"
    by (simp add: in_state_def)
  have h2: "''getting_goal_time'' \<in> set flow_states" by (simp add: flow_states_def)
  have h3: "strip (lower ''budget'') \<noteq> ''back''" "strip (lower ''hello there'') \<noteq> ''back''"
    "strip (lower '' Budget'') = ''budget''"
    by (simp_all add: ev_text)
  have h4: "parse_number ''budget'' = parse_number ''hello there''" by (simp add: ev_parse)
  note t = active_flow_ignores_keywords[OF h1 h2, of "''budget''" "''hello there''" no_pending
      "'' Budget''" no_hf]
  have g1: "core_reply no_pending (in_state ''getting_goal_time'') ''budget''
       = core_reply no_pending (in_state ''getting_goal_time'') ''hello there''"
    using t h3 h4 by blast
  have "get_response no_hf no_pending (in_state ''getting_goal_time'') '' Budget''
       = (Inr (maybe_polish_and_return no_hf (reprompt_of ''getting_goal_time'') '' Budget''
               (in_state ''getting_goal_time'')), in_state ''getting_goal_time'', no_pending)"
    using t h3(3) by blast
  then have g2: "get_response no_hf no_pending (in_state ''getting_goal_time'') '' Budget''
       = (Inr ''Please enter a valid number of months. You can also type 'back' to return to the main menu.'',
          in_state ''getting_goal_time'', no_pending)"
    by (simp add: no_hf_polish reprompt_of_def msg_goal_time_retry_def back_hint_def)
  show ?thesis by (intro conjI) (rule h1 h2 h3 h4 g1 g2)+
qed

subsection \<open>The budget flow\<close>

text \<open>
  Claim C5 as stated asks for the summary after every income and expenses answer that parses
  as a number, with the verdict decided by \<open>i - e \<ge> 0.2 i\<close>. Two runs of the code differ.
  First, after the income \<^verbatim>\<open>60000\<close> the expenses answer \<^verbatim>\<open>0\<close> parses as 0.0, the guard
  \<^verbatim>\<open>if expenses:\<close> at line 121 is false, and the reply is the reprompt: the flow stays
  active and no summary is given. Second, with income 103 and expenses 82.4 the savings
  equal the savings target (both are 20.6), which the claim calls on track; the code
  computes in doubles, where \<^verbatim>\<open>103 - 82.4\<close> is 20.599999999999994 and \<^verbatim>\<open>103 * 0.2\<close> is
  20.6, and gives the below-target verdict under the figures 21 and 21.
\<close>

theorem budget_flow_zero_and_rounding:
  "parse_number ''60000'' = Inr (Some (Fin 60000)) \<and> parse_number ''0'' = Inr (Some (Fin 0))
   \<and> get_response no_hf no_pending (in_state ''getting_income_for_budget'') ''60000''
       = (Inr (''Great! Your monthly income is '' @
            [CHR 0xC3, CHR 0xA2, CHR 0xE2, CHR 0x80, CHR 0x9A, CHR 0xC2, CHR 0xB9] @
            ''60,000. Now, what are your total monthly expenses (rent, bills, food, etc.)? You can also type 'back' to return to the main menu.''),
          init_profile\<lparr>income := Fin 60000,
                         conversation_state := Some ''getting_expenses_for_budget''\<rparr>,
          no_pending)
   \<and> get_response no_hf no_pending
         (init_profile\<lparr>income := Fin 60000,
                        conversation_state := Some ''getting_expenses_for_budget''\<rparr>) ''0''
       = (Inr (''I couldn't understand that number. Please provide your total monthly expenses. You can also type 'back' to return to the main menu.''),
          init_profile\<lparr>income := Fin 60000,
                         conversation_state := Some ''getting_expenses_for_budget''\<rparr>,
          no_pending)
   \<and> parse_number ''103'' = Inr (Some (Fin 103))
   \<and> parse_number ''82.4'' = Inr (Some (Fin (2899192260119757 / 35184372088832)))
   \<and> (103 :: rat) * (1 / 5) \<le> 103 - 412 / 5
   \<and> get_response no_hf no_pending
         (init_profile\<lparr>income := Fin 103,
                        conversation_state := Some ''getting_expenses_for_budget''\<rparr>) ''82.4''
       = (Inr (''Thanks! Based on your numbers:'' @ [CHR 0x0A, CHR 0x0A] @ ''- Income: '' @
            [CHR 0xC3, CHR 0xA2, CHR 0xE2, CHR 0x80, CHR 0x9A, CHR 0xC2, CHR 0xB9] @ ''103'' @
            [CHR 0x0A] @ ''- Expenses: '' @
            [CHR 0xC3, CHR 0xA2, CHR 0xE2, CHR 0x80, CHR 0x9A, CHR 0xC2, CHR 0xB9] @ ''82'' @
            [CHR 0x0A] @ ''- Potential Savings: '' @
            [CHR 0xC3, CHR 0xA2, CHR 0xE2, CHR 0x80, CHR 0x9A, CHR 0xC2, CHR 0xB9] @
            ''21 per month'' @ [CHR 0x0A, CHR 0x0A] @ ''Sample budget (50/30/20):'' @ [CHR 0x0A] @
            ''- Needs (50%): '' @
            [CHR 0xC3, CHR 0xA2, CHR 0xE2, CHR 0x80, CHR 0x9A, CHR 0xC2, CHR 0xB9] @ ''52'' @
            [CHR 0x0A] @ ''- Wants (30%): '' @
            [CHR 0xC3, CHR 0xA2, CHR 0xE2, CHR 0x80, CHR 0x9A, CHR 0xC2, CHR 0xB9] @ ''31'' @
            [CHR 0x0A] @ ''- Savings (20%): '' @
            [CHR 0xC3, CHR 0xA2, CHR 0xE2, CHR 0x80, CHR 0x9A, CHR 0xC2, CHR 0xB9] @ ''21'' @
            [CHR 0x0A, CHR 0x0A] @
            ''You're a bit below the 20% savings target. Consider trimming wants.''),
          init_profile\<lparr>income := Fin 103,
                         expenses := Fin (2899192260119757 / 35184372088832)\<rparr>,
          no_pending)"
proof (intro conjI)
  show "parse_number ''60000'' = Inr (Some (Fin 60000))" by (simp add: ev_parse)
  show "parse_number ''0'' = Inr (Some (Fin 0))" by (simp add: ev_parse)
  show "parse_number ''103'' = Inr (Some (Fin 103))" by (simp add: ev_parse)
  show "parse_number ''82.4'' = Inr (Some (Fin (2899192260119757 / 35184372088832)))"
    by (simp add: ev_parse)
  show "(103 :: rat) * (1 / 5) \<le> 103 - 412 / 5" by simp
  show "get_response no_hf no_pending (in_state ''getting_income_for_budget'') ''60000''
       = (Inr (''Great! Your monthly income is '' @
            [CHR 0xC3, CHR 0xA2, CHR 0xE2, CHR 0x80, CHR 0x9A, CHR 0xC2, CHR 0xB9] @
            ''60,000. Now, what are your total monthly expenses (rent, bills, food, etc.)? You can also type 'back' to return to the main menu.''),
          init_profile\<lparr>income := Fin 60000,
                         conversation_state := Some ''getting_expenses_for_budget''\<rparr>,
          no_pending)"
    by (simp add: ev_run ev_parse ev_text ev_ops ev_fmt msg_income_ok_def rupee_def back_hint_def)
  show "get_response no_hf no_pending
         (init_profile\<lparr>income := Fin 60000,
                        conversation_state := Some ''getting_expenses_for_budget''\<rparr>) ''0''
       = (Inr (''I couldn't understand that number. Please provide your total monthly expenses. You can also type 'back' to return to the main menu.''),
          init_profile\<lparr>income := Fin 60000,
                         conversation_state := Some ''getting_expenses_for_budget''\<rparr>,
          no_pending)"
    by (simp add: ev_run ev_parse ev_text ev_ops msg_expenses_retry_def back_hint_def)
  show "get_response no_hf no_pending
         (init_profile\<lparr>income := Fin 103,
                        conversation_state := Some ''getting_expenses_for_budget''\<rparr>) ''82.4''
       = (Inr (''Thanks! Based on your numbers:'' @ [CHR 0x0A, CHR 0x0A] @ ''- Income: '' @
            [CHR 0xC3, CHR 0xA2, CHR 0xE2, CHR 0x80, CHR 0x9A, CHR 0xC2, CHR 0xB9] @ ''103'' @
            [CHR 0x0A] @ ''- Expenses: '' @
            [CHR 0xC3, CHR 0xA2, CHR 0xE2, CHR 0x80, CHR 0x9A, CHR 0xC2, CHR 0xB9] @ ''82'' @
            [CHR 0x0A] @ ''- Potential Savings: '' @
            [CHR 0xC3, CHR 0xA2, CHR 0xE2, CHR 0x80, CHR 0x9A, CHR 0xC2, CHR 0xB9] @
            ''21 per month'' @ [CHR 0x0A, CHR 0x0A] @ ''Sample budget (50/30/20):'' @ [CHR 0x0A] @
            ''- Needs (50%): '' @
            [CHR 0xC3, CHR 0xA2, CHR 0xE2, CHR 0x80, CHR 0x9A, CHR 0xC2, CHR 0xB9] @ ''52'' @
            [CHR 0x0A] @ ''- Wants (30%): '' @
            [CHR 0xC3, CHR 0xA2, CHR 0xE2, CHR 0x80, CHR 0x9A, CHR 0xC2, CHR 0xB9] @ ''31'' @
            [CHR 0x0A] @ ''- Savings (20%): '' @
            [CHR 0xC3, CHR 0xA2, CHR 0xE2, CHR 0x80, CHR 0x9A, CHR 0xC2, CHR 0xB9] @ ''21'' @
            [CHR 0x0A, CHR 0x0A] @
            ''You're a bit below the 20% savings target. Consider trimming wants.''),
          init_profile\<lparr>income := Fin 103,
                         expenses := Fin (2899192260119757 / 35184372088832)\<rparr>,
          no_pending)"
    by (simp add: ev_run ev_parse ev_text ev_ops ev_fmt fl_consts msg_budget_def rupee_def
        msg_below_target_def msg_on_track_def)
qed

text \<open>
  Claim C5, amended: in the budget flow, an income answer parsed as \<open>i\<close> and then an expenses
  answer parsed as \<open>e\<close>, both other than 0, leave the conversation idle with income \<open>i\<close>
  and expenses \<open>e\<close> stored, and the reply is the (possibly polished) summary below. Its
  figures are \<open>i\<close>, \<open>e\<close> and the doubles \<^verbatim>\<open>i - e\<close>, \<^verbatim>\<open>i * 0.5\<close>, \<^verbatim>\<open>i * 0.3\<close> and
  \<^verbatim>\<open>i * 0.2\<close>, each printed without decimals; it closes with the on-track sentence exactly
  when the double \<^verbatim>\<open>i * 0.2\<close> is at most the double \<^verbatim>\<open>i - e\<close>, and with the below-target
  sentence otherwise. An expenses answer that parses as 0 gets the reprompt for expenses
  instead, and the profile stays as the income step left it.
\<close>

theorem budget_flow_summary:
  assumes "conversation_state p = Some ''getting_income_for_budget''"
    and "parse_number u1 = Inr (Some i)" and "i \<noteq> Fin 0"
    and "parse_number u2 = Inr (Some e)" and "e \<noteq> Fin 0"
  shows "get_response env st p u1
           = (Inr (maybe_polish_and_return env
                (''Great! Your monthly income is '' @ rupee @ fmt0 i @
                ''. Now, what are your total monthly expenses (rent, bills, food, etc.)? You can also type 'back' to return to the main menu.'')
                u1 (p\<lparr>income := i, conversation_state := Some ''getting_expenses_for_budget''\<rparr>)),
              p\<lparr>income := i, conversation_state := Some ''getting_expenses_for_budget''\<rparr>, st)
       \<and> get_response env st
             (p\<lparr>income := i, conversation_state := Some ''getting_expenses_for_budget''\<rparr>) u2
           = (Inr (maybe_polish_and_return env
                (''Thanks! Based on your numbers:'' @ [CHR 0x0A, CHR 0x0A] @
                ''- Income: '' @ rupee @ fmt0 i @ [CHR 0x0A] @
                ''- Expenses: '' @ rupee @ fmt0 e @ [CHR 0x0A] @
                ''- Potential Savings: '' @ rupee @ fmt0 (fsub i e) @ '' per month'' @
                [CHR 0x0A, CHR 0x0A] @ ''Sample budget (50/30/20):'' @ [CHR 0x0A] @
                ''- Needs (50%): '' @ rupee @ fmt0 (fmul i (fl (1 / 2))) @ [CHR 0x0A] @
                ''- Wants (30%): '' @ rupee @ fmt0 (fmul i (fl (3 / 10))) @ [CHR 0x0A] @
                ''- Savings (20%): '' @ rupee @ fmt0 (fmul i (fl (1 / 5))) @
                [CHR 0x0A, CHR 0x0A] @
                (if fle (fmul i (fl (1 / 5))) (fsub i e)
                 then ''You're doing a great job with your savings! Keep it up.''
                 else ''You're a bit below the 20% savings target. Consider trimming wants.''))
                u2 (p\<lparr>income := i, expenses := e, conversation_state := None\<rparr>)),
              p\<lparr>income := i, expenses := e, conversation_state := None\<rparr>, st)
       \<and> (parse_number u0 = Inr (Some (Fin 0)) \<longrightarrow>
            get_response env st
              (p\<lparr>income := i, conversation_state := Some ''getting_expenses_for_budget''\<rparr>) u0
            = (Inr (maybe_polish_and_return env
                 ''I couldn't understand that number. Please provide your total monthly expenses. You can also type 'back' to return to the main menu.''
                 u0 (p\<lparr>income := i, conversation_state := Some ''getting_expenses_for_budget''\<rparr>)),
               p\<lparr>income := i, conversation_state := Some ''getting_expenses_for_budget''\<rparr>, st))"
proof -
  have b1: "strip (lower u1) \<noteq> ''back''" using assms(2) back_parse_None[of u1] by auto
  have b2: "strip (lower u2) \<noteq> ''back''" using assms(4) back_parse_None[of u2] by auto
  have t1: "truthy_float i" using parse_truthy[OF assms(2)] assms(3) by simp
  have t2: "truthy_float e" using parse_truthy[OF assms(4)] assms(5) by simp
  let ?p1 = "p\<lparr>income := i, conversation_state := Some ''getting_expenses_for_budget''\<rparr>"
  let ?p2 = "p\<lparr>income := i, expenses := e, conversation_state := None\<rparr>"
  have s1: "get_response env st p u1
           = (Inr (maybe_polish_and_return env
                (''Great! Your monthly income is '' @ rupee @ fmt0 i @
                ''. Now, what are your total monthly expenses (rent, bills, food, etc.)? You can also type 'back' to return to the main menu.'')
                u1 ?p1), ?p1, st)"
    using assms(1,2) b1 t1
    by (simp add: get_response_def core_reply_def msg_income_ok_def back_hint_def)
  have s2: "get_response env st ?p1 u2
           = (Inr (maybe_polish_and_return env
                (''Thanks! Based on your numbers:'' @ [CHR 0x0A, CHR 0x0A] @
                ''- Income: '' @ rupee @ fmt0 i @ [CHR 0x0A] @
                ''- Expenses: '' @ rupee @ fmt0 e @ [CHR 0x0A] @
                ''- Potential Savings: '' @ rupee @ fmt0 (fsub i e) @ '' per month'' @
                [CHR 0x0A, CHR 0x0A] @ ''Sample budget (50/30/20):'' @ [CHR 0x0A] @
                ''- Needs (50%): '' @ rupee @ fmt0 (fmul i (fl (1 / 2))) @ [CHR 0x0A] @
                ''- Wants (30%): '' @ rupee @ fmt0 (fmul i (fl (3 / 10))) @ [CHR 0x0A] @
                ''- Savings (20%): '' @ rupee @ fmt0 (fmul i (fl (1 / 5))) @
                [CHR 0x0A, CHR 0x0A] @
                (if fle (fmul i (fl (1 / 5))) (fsub i e)
                 then ''You're doing a great job with your savings! Keep it up.''
                 else ''You're a bit below the 20% savings target. Consider trimming wants.''))
                u2 ?p2), ?p2, st)"
    using assms(4) b2 t2
    by (simp add: get_response_def core_reply_def Let_def msg_budget_def msg_on_track_def
        msg_below_target_def)
  have s3: "get_response env st ?p1 u0
            = (Inr (maybe_polish_and_return env
                 ''I couldn't understand that number. Please provide your total monthly expenses. You can also type 'back' to return to the main menu.''
                 u0 ?p1), ?p1, st)"
    if z: "parse_number u0 = Inr (Some (Fin 0))"
  proof -
    have "strip (lower u0) \<noteq> ''back''" using z back_parse_None[of u0] by auto
    then show ?thesis using z
      by (simp add: get_response_def core_reply_def truthy_float_def msg_expenses_retry_def
          back_hint_def)
  qed
  show ?thesis using s1 s2 s3 by blast
qed

text \<open>
  The example of the specification: income 60000, expenses 45000 give needs 30,000, wants
  18,000, savings target 12,000, savings 15,000 and the on-track verdict; the expenses
  answer 0 is reprompted.
\<close>

theorem budget_flow_summary_witness:
  "conversation_state (in_state ''getting_income_for_budget'') = Some ''getting_income_for_budget''
   \<and> parse_number ''60000'' = Inr (Some (Fin 60000)) \<and> Fin 60000 \<noteq> Fin 0
   \<and> parse_number ''45000'' = Inr (Some (Fin 45000)) \<and> Fin 45000 \<noteq> Fin 0
   \<and> get_response no_hf no_pending (in_state ''getting_income_for_budget'') ''60000''
       = (Inr (''Great! Your monthly income is '' @
              [CHR 0xC3, CHR 0xA2, CHR 0xE2, CHR 0x80, CHR 0x9A, CHR 0xC2, CHR 0xB9] @
              ''60,000. Now, what are your total monthly expenses (rent, bills, food, etc.)? You can also type 'back' to return to the main menu.''),
          init_profile\<lparr>income := Fin 60000,
                       conversation_state := Some ''getting_expenses_for_budget''\<rparr>, no_pending)
   \<and> get_response no_hf no_pending
         (init_profile\<lparr>income := Fin 60000,
                       conversation_state := Some ''getting_expenses_for_budget''\<rparr>) ''45000''
       = (Inr (''Thanks! Based on your numbers:'' @ [CHR 0x0A, CHR 0x0A] @ ''- Income: '' @
              [CHR 0xC3, CHR 0xA2, CHR 0xE2, CHR 0x80, CHR 0x9A, CHR 0xC2, CHR 0xB9] @
              ''60,000'' @ [CHR 0x0A] @ ''- Expenses: '' @
              [CHR 0xC3, CHR 0xA2, CHR 0xE2, CHR 0x80, CHR 0x9A, CHR 0xC2, CHR 0xB9] @
              ''45,000'' @ [CHR 0x0A] @ ''- Potential Savings: '' @
              [CHR 0xC3, CHR 0xA2, CHR 0xE2, CHR 0x80, CHR 0x9A, CHR 0xC2, CHR 0xB9] @
              ''15,000 per month'' @ [CHR 0x0A, CHR 0x0A] @ ''Sample budget (50/30/20):'' @
              [CHR 0x0A] @ ''- Needs (50%): '' @
              [CHR 0xC3, CHR 0xA2, CHR 0xE2, CHR 0x80, CHR 0x9A, CHR 0xC2, CHR 0xB9] @
              ''30,000'' @ [CHR 0x0A] @ ''- Wants (30%): '' @
              [CHR 0xC3, CHR 0xA2, CHR 0xE2, CHR 0x80, CHR 0x9A, CHR 0xC2, CHR 0xB9] @
              ''18,000'' @ [CHR 0x0A] @ ''- Savings (20%): '' @
              [CHR 0xC3, CHR 0xA2, CHR 0xE2, CHR 0x80, CHR 0x9A, CHR 0xC2, CHR 0xB9] @
              ''12,000'' @ [CHR 0x0A, CHR 0x0A] @
              ''You're doing a great job with your savings! Keep it up.''),
          init_profile\<lparr>income := Fin 60000, expenses := Fin 45000\<rparr>, no_pending)
   \<and> parse_number ''0'' = Inr (Some (Fin 0))
   \<and> get_response no_hf no_pending
         (init_profile\<lparr>income := Fin 60000,
                       conversation_state := Some ''getting_expenses_for_budget''\<rparr>) ''0''
       = (Inr ''I couldn't understand that number. Please provide your total monthly expenses. You can also type 'back' to return to the main menu.'',
          init_profile\<lparr>income := Fin 60000,
                       conversation_state := Some ''getting_expenses_for_budget''\<rparr>, no_pending)"
proof -
  have h: "parse_number ''60000'' = Inr (Some (Fin 60000))"
    "parse_number ''45000'' = Inr (Some (Fin 45000))"
    "conversation_state (in_state ''getting_income_for_budget'')
       = Some ''getting_income_for_budget''"
    "Fin 60000 \<noteq> Fin 0" "Fin 45000 \<noteq> Fin 0"
    by (simp_all add: ev_parse in_state_def)
  have z: "parse_number ''0'' = Inr (Some (Fin 0))" by (simp add: ev_parse)
  note t = budget_flow_summary[OF h(3) h(1) h(4) h(2) h(5), of no_hf no_pending "''0''"]
  from t have g1: "get_response no_hf no_pending (in_state ''getting_income_for_budget'') ''60000''
       = (Inr (''Great! Your monthly income is '' @
              [CHR 0xC3, CHR 0xA2, CHR 0xE2, CHR 0x80, CHR 0x9A, CHR 0xC2, CHR 0xB9] @
              ''60,000. Now, what are your total monthly expenses (rent, bills, food, etc.)? You can also type 'back' to return to the main menu.''),
          init_profile\<lparr>income := Fin 60000,
                       conversation_state := Some ''getting_expenses_for_budget''\<rparr>, no_pending)"
    by (simp add: no_hf_polish in_state_def init_profile_def rupee_def ev_fmt)
  from t have g2: "get_response no_hf no_pending
         (init_profile\<lparr>income := Fin 60000,
                       conversation_state := Some ''getting_expenses_for_budget''\<rparr>) ''45000''
       = (Inr (''Thanks! Based on your numbers:'' @ [CHR 0x0A, CHR 0x0A] @ ''- Income: '' @
              [CHR 0xC3, CHR 0xA2, CHR 0xE2, CHR 0x80, CHR 0x9A, CHR 0xC2, CHR 0xB9] @
              ''60,000'' @ [CHR 0x0A] @ ''- Expenses: '' @
              [CHR 0xC3, CHR 0xA2, CHR 0xE2, CHR 0x80, CHR 0x9A, CHR 0xC2, CHR 0xB9] @
              ''45,000'' @ [CHR 0x0A] @ ''- Potential Savings: '' @
              [CHR 0xC3, CHR 0xA2, CHR 0xE2, CHR 0x80, CHR 0x9A, CHR 0xC2, CHR 0xB9] @
              ''15,000 per month'' @ [CHR 0x0A, CHR 0x0A] @ ''Sample budget (50/30/20):'' @
              [CHR 0x0A] @ ''- Needs (50%): '' @
              [CHR 0xC3, CHR 0xA2, CHR 0xE2, CHR 0x80, CHR 0x9A, CHR 0xC2, CHR 0xB9] @
              ''30,000'' @ [CHR 0x0A] @ ''- Wants (30%): '' @
              [CHR 0xC3, CHR 0xA2, CHR 0xE2, CHR 0x80, CHR 0x9A, CHR 0xC2, CHR 0xB9] @
              ''18,000'' @ [CHR 0x0A] @ ''- Savings (20%): '' @
              [CHR 0xC3, CHR 0xA2, CHR 0xE2, CHR 0x80, CHR 0x9A, CHR 0xC2, CHR 0xB9] @
              ''12,000'' @ [CHR 0x0A, CHR 0x0A] @
              ''You're doing a great job with your savings! Keep it up.''),
          init_profile\<lparr>income := Fin 60000, expenses := Fin 45000\<rparr>, no_pending)"
    by (simp add: no_hf_polish in_state_def init_profile_def rupee_def fl_consts ev_ops ev_fl
        ev_fmt)
  from t z have g3: "get_response no_hf no_pending
         (init_profile\<lparr>income := Fin 60000,
                       conversation_state := Some ''getting_expenses_for_budget''\<rparr>) ''0''
       = (Inr ''I couldn't understand that number. Please provide your total monthly expenses. You can also type 'back' to return to the main menu.'',
          init_profile\<lparr>income := Fin 60000,
                       conversation_state := Some ''getting_expenses_for_budget''\<rparr>, no_pending)"
    by (simp add: no_hf_polish in_state_def init_profile_def)
  show ?thesis by (intro conjI) (rule h z g1 g2 g3)+
qed

subsection \<open>The income step\<close>

text \<open>
  Claim C8 as stated includes the number 0. The guard \<^verbatim>\<open>if income:\<close> at line 110 is false
  for 0.0: the answer \<^verbatim>\<open>0\<close> parses to 0 and gets the reprompt, with the profile unchanged.
\<close>

theorem income_zero_reprompts:
  "parse_number ''0'' = Inr (Some (Fin 0))
   \<and> get_response no_hf no_pending (in_state ''getting_income_for_budget'') ''0''
       = (Inr (''I couldn't understand that number. Please provide your total monthly income. You can also type 'back' to return to the main menu.''),
          in_state ''getting_income_for_budget'', no_pending)"
  by (simp add: ev_run ev_parse ev_text ev_ops msg_income_retry_def back_hint_def)

text \<open>
  Claim C8, amended: in state \<^verbatim>\<open>getting_income_for_budget\<close>, for every utterance from which
  the parser extracts a number \<open>n\<close> other than 0, \<^verbatim>\<open>get_response\<close> stores \<open>n\<close> as the income,
  advances to \<^verbatim>\<open>getting_expenses_for_budget\<close> and asks for expenses; for an utterance other
  than \<^verbatim>\<open>back\<close> from which no number or the number 0 is extracted it reprompts and leaves
  the profile as it was; and it stays in the state only in these two cases.
\<close>

theorem income_step:
  assumes "conversation_state p = Some ''getting_income_for_budget''"
  shows "(parse_number u = Inr (Some n) \<and> n \<noteq> Fin 0 \<longrightarrow>
            get_response env st p u =
              (Inr (maybe_polish_and_return env (msg_income_ok n) u
                     (p\<lparr>income := n,
                        conversation_state := Some ''getting_expenses_for_budget''\<rparr>)),
               p\<lparr>income := n, conversation_state := Some ''getting_expenses_for_budget''\<rparr>,
               st))
       \<and> (strip (lower u) \<noteq> ''back''
            \<and> (parse_number u = Inr None \<or> parse_number u = Inr (Some (Fin 0))) \<longrightarrow>
            get_response env st p u
              = (Inr (maybe_polish_and_return env msg_income_retry u p), p, st))
       \<and> (get_response env st p u = (Inr r, p', st')
            \<and> conversation_state p' = Some ''getting_income_for_budget'' \<longrightarrow>
            parse_number u = Inr None \<or> parse_number u = Inr (Some (Fin 0)))"
proof (intro conjI impI)
  assume a: "parse_number u = Inr (Some n) \<and> n \<noteq> Fin 0"
  then have "strip (lower u) \<noteq> ''back''" using back_parse_None[of u] by auto
  moreover have "truthy_float n" using a parse_truthy[of u n] by simp
  ultimately show "get_response env st p u =
              (Inr (maybe_polish_and_return env (msg_income_ok n) u
                     (p\<lparr>income := n,
                        conversation_state := Some ''getting_expenses_for_budget''\<rparr>)),
               p\<lparr>income := n, conversation_state := Some ''getting_expenses_for_budget''\<rparr>,
               st)"
    using a assms by (simp add: get_response_def core_reply_def)
next
  assume "strip (lower u) \<noteq> ''back''
            \<and> (parse_number u = Inr None \<or> parse_number u = Inr (Some (Fin 0)))"
  then show "get_response env st p u
               = (Inr (maybe_polish_and_return env msg_income_retry u p), p, st)"
    using assms by (auto simp add: get_response_def core_reply_def truthy_float_def)
next
  assume a: "get_response env st p u = (Inr r, p', st')
               \<and> conversation_state p' = Some ''getting_income_for_budget''"
  show "parse_number u = Inr None \<or> parse_number u = Inr (Some (Fin 0))"
  proof (cases "strip (lower u) = ''back''")
    case True
    then show ?thesis by (simp add: back_parse_None)
  next
    case False
    show ?thesis
    proof (cases "parse_number u")
      case (Inl err)
      then show ?thesis using a assms False by (simp add: get_response_def core_reply_def)
    next
      case (Inr res)
      show ?thesis
      proof (cases res)
        case None
        then show ?thesis using Inr by simp
      next
        case (Some n)
        have "\<not> truthy_float n" using a assms False Inr Some
          by (auto simp add: get_response_def core_reply_def split: if_splits)
        then have "n = Fin 0" using parse_truthy[of u n] Inr Some by simp
        then show ?thesis using Inr Some by simp
      qed
    qed
  qed
qed

text \<open>
  The answer \<^verbatim>\<open>Rs. 12,500.50\<close> is stored as 12500.5; the answer \<^verbatim>\<open>a lot\<close> is reprompted.
\<close>

theorem income_step_witness:
  "conversation_state (in_state ''getting_income_for_budget'') = Some ''getting_income_for_budget''
   \<and> parse_number ''Rs. 12,500.50'' = Inr (Some (Fin (25001 / 2)))
   \<and> Fin (25001 / 2) \<noteq> Fin 0
   \<and> get_response no_hf no_pending (in_state ''getting_income_for_budget'') ''Rs. 12,500.50''
       = (Inr (''Great! Your monthly income is '' @
            [CHR 0xC3, CHR 0xA2, CHR 0xE2, CHR 0x80, CHR 0x9A, CHR 0xC2, CHR 0xB9] @
            ''12,500. Now, what are your total monthly expenses (rent, bills, food, etc.)? You can also type 'back' to return to the main menu.''),
          init_profile\<lparr>income := Fin (25001 / 2),
                         conversation_state := Some ''getting_expenses_for_budget''\<rparr>,
          no_pending)
   \<and> strip (lower ''a lot'') \<noteq> ''back'' \<and> parse_number ''a lot'' = Inr None
   \<and> get_response no_hf no_pending (in_state ''getting_income_for_budget'') ''a lot''
       = (Inr (''I couldn't understand that number. Please provide your total monthly income. You can also type 'back' to return to the main menu.''),
          in_state ''getting_income_for_budget'', no_pending)"
proof -
  let ?p = "in_state ''getting_income_for_budget''"
  have h1: "conversation_state ?p = Some ''getting_income_for_budget''"
    by (simp add: in_state_def)
  have h2: "parse_number ''Rs. 12,500.50'' = Inr (Some (Fin (25001 / 2)))"
    by (simp add: ev_parse)
  have h3: "Fin (25001 / 2) \<noteq> Fin 0" by simp
  have h4: "strip (lower ''a lot'') \<noteq> ''back''" by (simp add: ev_text)
  have h5: "parse_number ''a lot'' = Inr None" by (simp add: ev_parse)
  have "get_response no_hf no_pending ?p ''Rs. 12,500.50''
       = (Inr (maybe_polish_and_return no_hf (msg_income_ok (Fin (25001 / 2))) ''Rs. 12,500.50''
                (?p\<lparr>income := Fin (25001 / 2),
                     conversation_state := Some ''getting_expenses_for_budget''\<rparr>)),
          ?p\<lparr>income := Fin (25001 / 2),
               conversation_state := Some ''getting_expenses_for_budget''\<rparr>,
          no_pending)"
    using income_step[OF h1, of "''Rs. 12,500.50''" "Fin (25001 / 2)" no_hf no_pending] h2 h3
    by blast
  then have g1: "get_response no_hf no_pending ?p ''Rs. 12,500.50''
       = (Inr (''Great! Your monthly income is '' @
            [CHR 0xC3, CHR 0xA2, CHR 0xE2, CHR 0x80, CHR 0x9A, CHR 0xC2, CHR 0xB9] @
            ''12,500. Now, what are your total monthly expenses (rent, bills, food, etc.)? You can also type 'back' to return to the main menu.''),
          init_profile\<lparr>income := Fin (25001 / 2),
                         conversation_state := Some ''getting_expenses_for_budget''\<rparr>,
          no_pending)"
    by (simp add: no_hf_polish in_state_def msg_income_ok_def rupee_def back_hint_def ev_fmt)
  have "get_response no_hf no_pending ?p ''a lot''
       = (Inr (maybe_polish_and_return no_hf msg_income_retry ''a lot'' ?p), ?p, no_pending)"
    using income_step[OF h1, of "''a lot''" "Fin 0" no_hf no_pending] h4 h5 by blast
  then have g2: "get_response no_hf no_pending ?p ''a lot''
       = (Inr (''I couldn't understand that number. Please provide your total monthly income. You can also type 'back' to return to the main menu.''),
          ?p, no_pending)"
    by (simp add: no_hf_polish msg_income_retry_def back_hint_def)
  show ?thesis by (intro conjI) (rule h1 h2 h3 h4 h5 g1 g2)+
qed

subsection \<open>The polisher's fallback\<close>

lemma extract_out_no_field:
  assumes "generated_text_field data = None" and "\<not> is_bare_string data"
  shows "case extract_out data of Inl e \<Rightarrow> True | Inr out \<Rightarrow> out = JNull"
proof (cases data)
  case (JList l)
  show ?thesis
  proof (cases l)
    case Nil
    then show ?thesis using JList by simp
  next
    case (Cons x xs)
    show ?thesis
    proof (cases x)
      case (JDict d)
      then show ?thesis using JList Cons assms by simp
    qed (simp_all add: JList Cons split: sum.splits bool.splits)
  qed
next
  case (JDict d)
  then show ?thesis using assms by simp
qed (use assms in simp_all)

text \<open>
  Claim C7 as stated counts every payload without a generated-text field, in the direct
  shape and in the first-element shape, as a failure after which the core reply is returned.
  A payload that is a bare JSON string has the field in neither shape, and lines 51-52 take
  it as the polished text: the reply is the payload, not the core reply.
\<close>

theorem polish_returns_bare_string:
  "generated_text_field (JStr ''Hi there'') = None
   \<and> call_hf_polish (hf_replying (JStr ''Hi there''))
        ''I've reset the conversation. How can I help you next?'' ''back'' init_profile
       = (Some ''Hi there'',
          [prompt ''I've reset the conversation. How can I help you next?'' ''back''])
   \<and> maybe_polish_and_return (hf_replying (JStr ''Hi there''))
        ''I've reset the conversation. How can I help you next?'' ''back'' init_profile
       = ''Hi there''"
  by (simp add: maybe_polish_and_return_def call_hf_polish_def hf_replying_def ev_text)

text \<open>
  Claim C7, amended: when the token is missing or empty, when \<^verbatim>\<open>requests.post\<close> raises,
  when the status is not 200, when the body is not JSON, or when the payload is not a bare
  string and has no generated-text field, neither directly nor in its first element,
  \<^verbatim>\<open>call_hf_polish\<close> returns \<^verbatim>\<open>None\<close> and \<^verbatim>\<open>maybe_polish_and_return\<close> returns the core
  reply unchanged; no exception leaves either function. With the token missing or empty no
  request is sent; otherwise exactly one request is sent, carrying the prompt.
\<close>

theorem polish_fallback:
  assumes "HF_TOKEN env = None \<or> HF_TOKEN env = Some []
         \<or> post env (prompt core q) = RequestException
         \<or> (\<exists>code body. post env (prompt core q) = Response code body
               \<and> (code \<noteq> 200 \<or> body = None
                    \<or> (\<exists>data. body = Some data \<and> generated_text_field data = None
                                  \<and> \<not> is_bare_string data)))"
  shows "call_hf_polish env core q p
           = (None, if HF_TOKEN env = None \<or> HF_TOKEN env = Some [] then []
                    else [prompt core q])
       \<and> maybe_polish_and_return env core q p = core"
proof -
  have "call_hf_polish env core q p
           = (None, if HF_TOKEN env = None \<or> HF_TOKEN env = Some [] then []
                    else [prompt core q])"
    using assms
  proof (elim disjE exE conjE)
    fix code body data
    assume r: "post env (prompt core q) = Response code body" and b: "body = Some data"
      and g: "generated_text_field data = None" and s: "\<not> is_bare_string data"
    show ?thesis using extract_out_no_field[OF g s] r b
      by (simp add: call_hf_polish_def split: sum.splits)
  qed (simp_all add: call_hf_polish_def)
  then show ?thesis by (simp add: maybe_polish_and_return_def)
qed

text \<open>
  A service that answers 200 with a list whose first element has no generated text: one
  request, the core reply comes back. Without a token: no request, the core reply comes back.
\<close>

theorem polish_fallback_witness:
  "post (hf_replying (JList [JDict [(''error'', JStr ''loading'')]]))
      (prompt ''I've reset the conversation. How can I help you next?'' ''back'')
     = Response 200 (Some (JList [JDict [(''error'', JStr ''loading'')]]))
   \<and> generated_text_field (JList [JDict [(''error'', JStr ''loading'')]]) = None
   \<and> \<not> is_bare_string (JList [JDict [(''error'', JStr ''loading'')]])
   \<and> call_hf_polish (hf_replying (JList [JDict [(''error'', JStr ''loading'')]]))
        ''I've reset the conversation. How can I help you next?'' ''back'' init_profile
       = (None, [prompt ''I've reset the conversation. How can I help you next?'' ''back''])
   \<and> maybe_polish_and_return (hf_replying (JList [JDict [(''error'', JStr ''loading'')]]))
        ''I've reset the conversation. How can I help you next?'' ''back'' init_profile
       = ''I've reset the conversation. How can I help you next?''
   \<and> HF_TOKEN no_hf = None
   \<and> call_hf_polish no_hf
        ''I've reset the conversation. How can I help you next?'' ''back'' init_profile
       = (None, [])
   \<and> maybe_polish_and_return no_hf
        ''I've reset the conversation. How can I help you next?'' ''back'' init_profile
       = ''I've reset the conversation. How can I help you next?''"
proof -
  let ?d = "JList [JDict [(''error'', JStr ''loading'')]]"
  let ?c = "''I've reset the conversation. How can I help you next?''"
  have h1: "post (hf_replying ?d) (prompt ?c ''back'') = Response 200 (Some ?d)"
    by (simp add: hf_replying_def)
  have h2: "generated_text_field ?d = None" by (simp add: dict_get_def)
  have h3: "\<not> is_bare_string ?d" by simp
  have h4: "HF_TOKEN no_hf = None" by (simp add: no_hf_def)
  have t: "HF_TOKEN (hf_replying ?d) \<noteq> None" "HF_TOKEN (hf_replying ?d) \<noteq> Some []"
    by (simp_all add: hf_replying_def)
  have "call_hf_polish (hf_replying ?d) ?c ''back'' init_profile
          = (None, if HF_TOKEN (hf_replying ?d) = None \<or> HF_TOKEN (hf_replying ?d) = Some []
                   then [] else [prompt ?c ''back''])
        \<and> maybe_polish_and_return (hf_replying ?d) ?c ''back'' init_profile = ?c"
    using polish_fallback[of "hf_replying ?d" ?c "''back''" init_profile] h1 h2 h3 by blast
  then have g1: "call_hf_polish (hf_replying ?d) ?c ''back'' init_profile
          = (None, [prompt ?c ''back''])"
    and g2: "maybe_polish_and_return (hf_replying ?d) ?c ''back'' init_profile = ?c"
    using t by simp_all
  have g3: "call_hf_polish no_hf ?c ''back'' init_profile = (None, [])"
    and g4: "maybe_polish_and_return no_hf ?c ''back'' init_profile = ?c"
    using polish_fallback[of no_hf ?c "''back''" init_profile] h4 by simp_all
  show ?thesis by (intro conjI) (rule h1 h2 h3 h4 g1 g2 g3 g4)+
qed

subsection \<open>The reminder about back\<close>

lemma dec_alphabet: "set (dec n) \<subseteq> set ''0123456789''"
proof (induction n rule: dec.induct)
  case (1 n)
  have d: "''0123456789'' ! k \<in> set ''0123456789''" if "k < 10" for k
    using that nth_mem[of k "''0123456789''"] by simp
  show ?case
  proof (cases "n < 10")
    case True
    then show ?thesis using d[of n] by (subst dec.simps) simp
  next
    case False
    have "n mod 10 < 10" by simp
    then show ?thesis using False 1 d[of "n mod 10"] by (subst dec.simps) simp
  qed
qed

lemma commas_rev_alphabet: "set (commas_rev s) \<subseteq> insert CHR '','' (set s)"
  by (induction s rule: commas_rev.induct) auto

lemma group3_alphabet: "set (group3 s) \<subseteq> insert CHR '','' (set s)"
  using commas_rev_alphabet[of "rev s"] by (simp add: group3_def)

lemma Y_dec: "CHR ''Y'' \<notin> set (dec n)"
  using dec_alphabet[of n] by auto

lemma Y_group3: "CHR ''Y'' \<notin> set (group3 (dec n))"
  using group3_alphabet[of "dec n"] Y_dec[of n] by auto

lemma Y_fmt0: "CHR ''Y'' \<notin> set (fmt0 x)"
  by (cases x) (simp_all add: Y_group3)

lemma Y_fmt2: "CHR ''Y'' \<notin> set (fmt2 x)"
  by (cases x) (simp_all add: Y_group3 Y_dec Let_def)

lemma Y_str_int: "CHR ''Y'' \<notin> set (str_int k)"
  by (simp add: str_int_def Y_dec)

lemma no_hint_goal_done:
  "\<not> contains ''You can also type 'back' to return to the main menu.'' (msg_goal_done a k m)"
proof
  assume "contains ''You can also type 'back' to return to the main menu.'' (msg_goal_done a k m)"
  then have "CHR ''Y'' \<in> set (msg_goal_done a k m)" by (rule contains_hd)
  then show False by (simp add: msg_goal_done_def rupee_def Y_fmt0 Y_fmt2 Y_str_int)
qed

lemma no_hint_emergency_done:
  "\<not> contains ''You can also type 'back' to return to the main menu.'' (msg_emergency_done a b c)"
proof
  assume "contains ''You can also type 'back' to return to the main menu.''
            (msg_emergency_done a b c)"
  then have "CHR ''Y'' \<in> set (msg_emergency_done a b c)" by (rule contains_hd)
  then show False by (simp add: msg_emergency_done_def rupee_def Y_fmt0)
qed

lemma Y_budget: "CHR ''Y'' \<notin> set (msg_budget i e s n w t)"
  by (simp add: msg_budget_def rupee_def Y_fmt0)

lemma no_hint_budget:
  "\<not> contains ''You can also type 'back' to return to the main menu.''
       (msg_budget i e s n w t @ msg_on_track)"
  "\<not> contains ''You can also type 'back' to return to the main menu.''
       (msg_budget i e s n w t @ msg_below_target)"
  by (simp_all add: contains_skip[OF Y_budget] msg_on_track_def msg_below_target_def)

lemma hint_retry:
  "contains ''You can also type 'back' to return to the main menu.'' msg_income_retry"
  "contains ''You can also type 'back' to return to the main menu.'' msg_expenses_retry"
  "contains ''You can also type 'back' to return to the main menu.'' msg_goal_amount_retry"
  "contains ''You can also type 'back' to return to the main menu.'' msg_goal_time_retry"
  "contains ''You can also type 'back' to return to the main menu.'' msg_emergency_retry"
  "contains ''You can also type 'back' to return to the main menu.'' (msg_income_ok x)"
  "contains ''You can also type 'back' to return to the main menu.'' (msg_goal_amount_ok x)"
  unfolding msg_income_retry_def msg_expenses_retry_def msg_goal_amount_retry_def
    msg_goal_time_retry_def msg_emergency_retry_def msg_income_ok_def msg_goal_amount_ok_def
    back_hint_def append_assoc[symmetric]
  by (rule contains_appendI, rule contains_self)+

lemma core_reply_hint:
  assumes "conversation_state p = Some s" and "s \<in> set flow_states"
    and "strip (lower u) \<noteq> ''back''"
    and "core_reply st p u = (Inr core, p', st')"
  shows "contains ''You can also type 'back' to return to the main menu.'' core
           = (conversation_state p' \<noteq> None)"
  using flow_cases[OF assms(2)] assms(1,3,4)
  by (elim disjE)
     (auto simp add: core_reply_def Let_def hint_retry no_hint_budget no_hint_goal_done
        no_hint_emergency_done
      split: sum.splits option.splits if_splits)

text \<open>
  Claim C9 as stated includes the completion replies, and it speaks of the reply that
  \<^verbatim>\<open>get_response\<close> returns. The three completion replies (lines 129-142, 169 and 181-186)
  are built without the reminder: the emergency-fund reply to \<^verbatim>\<open>20000\<close> does not contain
  it. And a reprompt that the polisher rewrites is returned as rewritten: with a service
  answering \<^verbatim>\<open>Months, please.\<close>, the reply to \<^verbatim>\<open>soon\<close> in state \<^verbatim>\<open>getting_goal_time\<close>
  is that text, without the reminder.
\<close>

theorem completion_reply_lacks_back_hint:
  "get_response no_hf no_pending (in_state ''getting_emergency_expenses'') ''20000''
     = (Inr (''For an emergency fund based on '' @
              [CHR 0xC3, CHR 0xA2, CHR 0xE2, CHR 0x80, CHR 0x9A, CHR 0xC2, CHR 0xB9] @
              ''20,000 monthly expenses, aim for:'' @ [CHR 0x0A, CHR 0x0A] @
              ''- 3-month fund: '' @
              [CHR 0xC3, CHR 0xA2, CHR 0xE2, CHR 0x80, CHR 0x9A, CHR 0xC2, CHR 0xB9] @
              ''60,000'' @ [CHR 0x0A] @ ''- 6-month fund: '' @
              [CHR 0xC3, CHR 0xA2, CHR 0xE2, CHR 0x80, CHR 0x9A, CHR 0xC2, CHR 0xB9] @
              ''120,000'' @ [CHR 0x0A, CHR 0x0A] @
              ''Keep this in a liquid/higher-yield savings option.''),
        init_profile, no_pending)
   \<and> \<not> contains ''You can also type 'back' to return to the main menu.''
        (''For an emergency fund based on '' @
              [CHR 0xC3, CHR 0xA2, CHR 0xE2, CHR 0x80, CHR 0x9A, CHR 0xC2, CHR 0xB9] @
              ''20,000 monthly expenses, aim for:'' @ [CHR 0x0A, CHR 0x0A] @
              ''- 3-month fund: '' @
              [CHR 0xC3, CHR 0xA2, CHR 0xE2, CHR 0x80, CHR 0x9A, CHR 0xC2, CHR 0xB9] @
              ''60,000'' @ [CHR 0x0A] @ ''- 6-month fund: '' @
              [CHR 0xC3, CHR 0xA2, CHR 0xE2, CHR 0x80, CHR 0x9A, CHR 0xC2, CHR 0xB9] @
              ''120,000'' @ [CHR 0x0A, CHR 0x0A] @
              ''Keep this in a liquid/higher-yield savings option.'')
   \<and> get_response (hf_replying (JStr ''Months, please.'')) no_pending
        (in_state ''getting_goal_time'') ''soon''
     = (Inr ''Months, please.'', in_state ''getting_goal_time'', no_pending)
   \<and> \<not> contains ''You can also type 'back' to return to the main menu.'' ''Months, please.''"
  by (simp add: ev_run ev_parse ev_text ev_ops ev_fl ev_fmt msg_emergency_done_def rupee_def
      msg_goal_time_retry_def back_hint_def maybe_polish_and_return_def call_hf_polish_def
      hf_replying_def no_hf_def)

text \<open>
  Claim C9, amended: in each of the five flow states, for every utterance other than
  \<^verbatim>\<open>back\<close> that \<^verbatim>\<open>get_response\<close> answers, the rule-based reply contains the reminder
  \<^verbatim>\<open>You can also type 'back' to return to the main menu.\<close> exactly when it leaves a flow
  active: every reprompt and the two replies that ask for the next answer carry it, the three
  completion replies do not. The reply returned is the polished form of that reply; when the
  polisher gives nothing or an empty text, it is that reply itself, and the same holds of it.
\<close>

theorem active_replies_have_back_hint:
  assumes "conversation_state p = Some s" and "s \<in> set flow_states"
    and "strip (lower u) \<noteq> ''back''"
    and "get_response env st p u = (Inr r, p', st')"
  shows "\<exists>core. core_reply st p u = (Inr core, p', st')
           \<and> r = maybe_polish_and_return env core u p'
           \<and> contains ''You can also type 'back' to return to the main menu.'' core
               = (conversation_state p' \<noteq> None)
           \<and> (fst (call_hf_polish env core u p') = None
                \<or> fst (call_hf_polish env core u p') = Some [] \<longrightarrow>
                r = core
                \<and> contains ''You can also type 'back' to return to the main menu.'' r
                    = (conversation_state p' \<noteq> None))"
proof -
  from assms(4) obtain core where c: "core_reply st p u = (Inr core, p', st')"
    and r: "r = maybe_polish_and_return env core u p'"
    by (auto simp add: get_response_def split: prod.splits sum.splits)
  note h = core_reply_hint[OF assms(1,2,3) c]
  have "r = core" if "fst (call_hf_polish env core u p') = None
                \<or> fst (call_hf_polish env core u p') = Some []"
    using that r by (auto simp add: maybe_polish_and_return_def)
  then show ?thesis using c r h by blast
qed

text \<open>
  Without a token, the reply that asks for the months of a goal carries the reminder.
\<close>

theorem active_replies_have_back_hint_witness:
  "conversation_state (in_state ''getting_goal_amount'') = Some ''getting_goal_amount''
   \<and> ''getting_goal_amount'' \<in> set flow_states
   \<and> strip (lower ''9000'') \<noteq> ''back''
   \<and> get_response no_hf no_pending (in_state ''getting_goal_amount'') ''9000''
     = (Inr (''Goal amount set to '' @
              [CHR 0xC3, CHR 0xA2, CHR 0xE2, CHR 0x80, CHR 0x9A, CHR 0xC2, CHR 0xB9] @
              ''9,000. In how many months do you want to achieve this goal? You can also type 'back' to return to the main menu.''),
        in_state ''getting_goal_time'', \<lparr>temp_goal_amount = Some (Fin 9000)\<rparr>)
   \<and> contains ''You can also type 'back' to return to the main menu.''
        (''Goal amount set to '' @
              [CHR 0xC3, CHR 0xA2, CHR 0xE2, CHR 0x80, CHR 0x9A, CHR 0xC2, CHR 0xB9] @
              ''9,000. In how many months do you want to achieve this goal? You can also type 'back' to return to the main menu.'')"
proof -
  let ?r = "''Goal amount set to '' @
              [CHR 0xC3, CHR 0xA2, CHR 0xE2, CHR 0x80, CHR 0x9A, CHR 0xC2, CHR 0xB9] @
              ''9,000. In how many months do you want to achieve this goal? You can also type 'back' to return to the main menu.''"
  have h1: "conversation_state (in_state ''getting_goal_amount'') = Some ''getting_goal_amount''"
    by (simp add: in_state_def)
  have h2: "''getting_goal_amount'' \<in> set flow_states" by (simp add: flow_states_def)
  have h3: "strip (lower ''9000'') \<noteq> ''back''" by (simp add: ev_text)
  have h4: "get_response no_hf no_pending (in_state ''getting_goal_amount'') ''9000''
     = (Inr ?r, in_state ''getting_goal_time'', \<lparr>temp_goal_amount = Some (Fin 9000)\<rparr>)"
    by (simp add: ev_run ev_parse ev_text ev_ops ev_fl ev_fmt msg_goal_amount_ok_def rupee_def
        back_hint_def)
  have n: "fst (call_hf_polish no_hf c ''9000'' (in_state ''getting_goal_time'')) = None" for c
    by (simp add: call_hf_polish_def no_hf_def)
  have s: "conversation_state (in_state ''getting_goal_time'') \<noteq> None"
    by (simp add: in_state_def)
  have g: "contains ''You can also type 'back' to return to the main menu.'' ?r"
    using active_replies_have_back_hint[OF h1 h2 h3 h4] n s by blast
  show ?thesis by (intro conjI) (rule h1 h2 h3 h4 g)+
qed

subsection \<open>Two conversations\<close>

lemma get_response_parts:
  "fst (get_response env st p u)
     = (case fst (core_reply st p u) of
          Inl e \<Rightarrow> Inl e
        | Inr core \<Rightarrow> Inr (maybe_polish_and_return env core u (fst (snd (core_reply st p u)))))"
  "snd (get_response env st p u) = snd (core_reply st p u)"
  by (simp_all add: get_response_def split: prod.splits sum.splits)

lemma core_reply_store_unread:
  assumes "conversation_state p \<noteq> Some ''getting_goal_time''"
  shows "fst (core_reply st1 p u) = fst (core_reply st2 p u)"
    and "fst (snd (core_reply st1 p u)) = fst (snd (core_reply st2 p u))"
  using assms by (simp_all add: core_reply_def Let_def split: sum.splits option.splits)

lemma core_reply_store_unwritten:
  assumes "conversation_state p \<noteq> Some ''getting_goal_amount''"
    and "conversation_state p \<noteq> Some ''getting_goal_time''"
  shows "snd (snd (core_reply st p u)) = st"
  using assms by (simp add: core_reply_def Let_def split: sum.splits option.splits)

lemma store_unread:
  assumes "conversation_state p \<noteq> Some ''getting_goal_time''"
  shows "fst (get_response env st1 p u) = fst (get_response env st2 p u)"
  by (simp only: get_response_parts(1) core_reply_store_unread[OF assms, of st1 u st2])

lemma store_unwritten:
  assumes "conversation_state p \<noteq> Some ''getting_goal_amount''"
    and "conversation_state p \<noteq> Some ''getting_goal_time''"
  shows "snd (snd (get_response env st p u)) = st"
  by (simp add: get_response_parts(2) core_reply_store_unwritten[OF assms])

lemma turn_parts:
  "fst (turn env sid pid u w) = fst (get_response env (stores w sid) (profiles w pid) u)"
  "stores (snd (turn env sid pid u w))
     = (stores w)(sid := snd (snd (get_response env (stores w sid) (profiles w pid) u)))"
  "profiles (snd (turn env sid pid u w))
     = (profiles w)(pid := fst (snd (get_response env (stores w sid) (profiles w pid) u)))"
  by (simp_all add: turn_def split: prod.splits)

text \<open>
  Claim C10 as stated takes independent Profile instances to be enough. The pending goal
  amount is not in the profile: it is the attribute \<^verbatim>\<open>temp_goal_amount\<close> of
  \<^verbatim>\<open>st.session_state\<close>. With one session store under two profiles, conversation B, waiting
  for its months with 500 pending, is told to save for 500 when it answers \<^verbatim>\<open>10\<close>; after
  conversation A (another profile) has answered \<^verbatim>\<open>9000\<close> to its own amount question, the
  same answer of B is told to save for 9,000.
\<close>

theorem shared_session_interferes:
  "get_response no_hf \<lparr>temp_goal_amount = Some (Fin 500)\<rparr> (in_state ''getting_goal_time'')
      ''10''
     = (Inr (''To reach your goal of '' @
              [CHR 0xC3, CHR 0xA2, CHR 0xE2, CHR 0x80, CHR 0x9A, CHR 0xC2, CHR 0xB9] @
              ''500 in 10 months, save '' @
              [CHR 0xC3, CHR 0xA2, CHR 0xE2, CHR 0x80, CHR 0x9A, CHR 0xC2, CHR 0xB9] @
              ''50.00 every month.''),
        init_profile, no_pending)
   \<and> get_response no_hf \<lparr>temp_goal_amount = Some (Fin 500)\<rparr>
        (in_state ''getting_goal_amount'') ''9000''
     = (Inr (''Goal amount set to '' @
              [CHR 0xC3, CHR 0xA2, CHR 0xE2, CHR 0x80, CHR 0x9A, CHR 0xC2, CHR 0xB9] @
              ''9,000. In how many months do you want to achieve this goal? You can also type 'back' to return to the main menu.''),
        in_state ''getting_goal_time'', \<lparr>temp_goal_amount = Some (Fin 9000)\<rparr>)
   \<and> get_response no_hf \<lparr>temp_goal_amount = Some (Fin 9000)\<rparr>
        (in_state ''getting_goal_time'') ''10''
     = (Inr (''To reach your goal of '' @
              [CHR 0xC3, CHR 0xA2, CHR 0xE2, CHR 0x80, CHR 0x9A, CHR 0xC2, CHR 0xB9] @
              ''9,000 in 10 months, save '' @
              [CHR 0xC3, CHR 0xA2, CHR 0xE2, CHR 0x80, CHR 0x9A, CHR 0xC2, CHR 0xB9] @
              ''900.00 every month.''),
        init_profile, no_pending)"
  by (simp add: ev_run ev_parse ev_text ev_ops ev_fl ev_fmt msg_goal_done_def
      msg_goal_amount_ok_def rupee_def back_hint_def)

text \<open>
  Claim C10, amended. Conversation A, with the profile \<open>pid_a\<close> and served from the session
  store \<open>sid_a\<close>, takes a turn; then conversation B, with another profile \<open>pid_b\<close> and
  served from the store \<open>sid_b\<close>, takes one. If the two stores are distinct, the turn of A
  leaves the store and the profile of B as they were, and the turn of B has the outcome, and
  leaves its store and its profile, as it would have without the turn of A. On a shared
  store the outcome of B is still the same when A is outside the two goal states
  (only there does \<^verbatim>\<open>get_response\<close> write the store) or when B is outside
  \<^verbatim>\<open>getting_goal_time\<close> (only there does \<^verbatim>\<open>get_response\<close> read it).
\<close>

theorem separate_sessions_noninterference:
  assumes "pid_a \<noteq> pid_b"
  shows "(sid_a \<noteq> sid_b \<longrightarrow>
            stores (snd (turn env sid_a pid_a u_a w)) sid_b = stores w sid_b
            \<and> profiles (snd (turn env sid_a pid_a u_a w)) pid_b = profiles w pid_b
            \<and> turn env sid_b pid_b u_b (snd (turn env sid_a pid_a u_a w))
                = (fst (turn env sid_b pid_b u_b w),
                   snd (turn env sid_a pid_a u_a w)
                     \<lparr>stores := (stores (snd (turn env sid_a pid_a u_a w)))
                                   (sid_b := stores (snd (turn env sid_b pid_b u_b w)) sid_b),
                      profiles := (profiles (snd (turn env sid_a pid_a u_a w)))
                                   (pid_b := profiles (snd (turn env sid_b pid_b u_b w)) pid_b)\<rparr>))
       \<and> (conversation_state (profiles w pid_a) \<noteq> Some ''getting_goal_amount''
            \<and> conversation_state (profiles w pid_a) \<noteq> Some ''getting_goal_time'' \<longrightarrow>
            stores (snd (turn env sid_a pid_a u_a w)) = stores w
            \<and> fst (turn env sid_b pid_b u_b (snd (turn env sid_a pid_a u_a w)))
                = fst (turn env sid_b pid_b u_b w))
       \<and> (conversation_state (profiles w pid_b) \<noteq> Some ''getting_goal_time'' \<longrightarrow>
            fst (turn env sid_b pid_b u_b (snd (turn env sid_a pid_a u_a w)))
              = fst (turn env sid_b pid_b u_b w))"
proof (intro conjI impI)
  assume d: "sid_a \<noteq> sid_b"
  show "stores (snd (turn env sid_a pid_a u_a w)) sid_b = stores w sid_b"
    using d by (simp add: turn_parts)
  show "profiles (snd (turn env sid_a pid_a u_a w)) pid_b = profiles w pid_b"
    using assms by (simp add: turn_parts)
  show "turn env sid_b pid_b u_b (snd (turn env sid_a pid_a u_a w))
                = (fst (turn env sid_b pid_b u_b w),
                   snd (turn env sid_a pid_a u_a w)
                     \<lparr>stores := (stores (snd (turn env sid_a pid_a u_a w)))
                                   (sid_b := stores (snd (turn env sid_b pid_b u_b w)) sid_b),
                      profiles := (profiles (snd (turn env sid_a pid_a u_a w)))
                                   (pid_b := profiles (snd (turn env sid_b pid_b u_b w)) pid_b)\<rparr>)"
    using d assms by (simp add: turn_def split: prod.splits)
next
  assume a: "conversation_state (profiles w pid_a) \<noteq> Some ''getting_goal_amount''
            \<and> conversation_state (profiles w pid_a) \<noteq> Some ''getting_goal_time''"
  then have k: "snd (snd (get_response env (stores w sid_a) (profiles w pid_a) u_a)) = stores w sid_a"
    using store_unwritten by blast
  show s: "stores (snd (turn env sid_a pid_a u_a w)) = stores w"
    by (simp add: turn_parts k)
  show "fst (turn env sid_b pid_b u_b (snd (turn env sid_a pid_a u_a w))) = fst (turn env sid_b pid_b u_b w)"
    using assms by (simp add: turn_parts(1) s) (simp add: turn_parts(3))
next
  assume b: "conversation_state (profiles w pid_b) \<noteq> Some ''getting_goal_time''"
  have "profiles (snd (turn env sid_a pid_a u_a w)) pid_b = profiles w pid_b"
    using assms by (simp add: turn_parts)
  then show "fst (turn env sid_b pid_b u_b (snd (turn env sid_a pid_a u_a w)))
      = fst (turn env sid_b pid_b u_b w)"
    using store_unread[OF b] by (simp add: turn_parts(1))
qed

text \<open>
  Conversation 0 stores 9000 in store 0, and conversation 1 on store 1 is still told to save
  for its 500. Conversation 2, in the emergency flow, shares store 1 with conversation 1 and
  leaves the 500 in place; and it shares store 0 with conversation 0 and gets its
  emergency-fund reply as if the 9000 were not there.
\<close>

theorem separate_sessions_noninterference_witness:
  "(0 :: nat) \<noteq> 1
   \<and> fst (turn no_hf 0 0 ''9000'' goal_world)
     = Inr (''Goal amount set to '' @
              [CHR 0xC3, CHR 0xA2, CHR 0xE2, CHR 0x80, CHR 0x9A, CHR 0xC2, CHR 0xB9] @
              ''9,000. In how many months do you want to achieve this goal? You can also type 'back' to return to the main menu.'')
   \<and> stores (snd (turn no_hf 0 0 ''9000'' goal_world)) 0
     = \<lparr>temp_goal_amount = Some (Fin 9000)\<rparr>
   \<and> fst (turn no_hf 1 1 ''10'' (snd (turn no_hf 0 0 ''9000'' goal_world)))
     = Inr (''To reach your goal of '' @
              [CHR 0xC3, CHR 0xA2, CHR 0xE2, CHR 0x80, CHR 0x9A, CHR 0xC2, CHR 0xB9] @
              ''500 in 10 months, save '' @
              [CHR 0xC3, CHR 0xA2, CHR 0xE2, CHR 0x80, CHR 0x9A, CHR 0xC2, CHR 0xB9] @
              ''50.00 every month.'')
   \<and> (1 :: nat) \<noteq> 2
   \<and> conversation_state (profiles goal_world 2) \<noteq> Some ''getting_goal_amount''
   \<and> conversation_state (profiles goal_world 2) \<noteq> Some ''getting_goal_time''
   \<and> fst (turn no_hf 1 1 ''10'' (snd (turn no_hf 1 2 ''20000'' goal_world)))
     = Inr (''To reach your goal of '' @
              [CHR 0xC3, CHR 0xA2, CHR 0xE2, CHR 0x80, CHR 0x9A, CHR 0xC2, CHR 0xB9] @
              ''500 in 10 months, save '' @
              [CHR 0xC3, CHR 0xA2, CHR 0xE2, CHR 0x80, CHR 0x9A, CHR 0xC2, CHR 0xB9] @
              ''50.00 every month.'')
   \<and> (0 :: nat) \<noteq> 2
   \<and> fst (turn no_hf 0 2 ''20000'' (snd (turn no_hf 0 0 ''9000'' goal_world)))
     = Inr (''For an emergency fund based on '' @
              [CHR 0xC3, CHR 0xA2, CHR 0xE2, CHR 0x80, CHR 0x9A, CHR 0xC2, CHR 0xB9] @
              ''20,000 monthly expenses, aim for:'' @ [CHR 0x0A, CHR 0x0A] @
              ''- 3-month fund: '' @
              [CHR 0xC3, CHR 0xA2, CHR 0xE2, CHR 0x80, CHR 0x9A, CHR 0xC2, CHR 0xB9] @
              ''60,000'' @ [CHR 0x0A] @ ''- 6-month fund: '' @
              [CHR 0xC3, CHR 0xA2, CHR 0xE2, CHR 0x80, CHR 0x9A, CHR 0xC2, CHR 0xB9] @
              ''120,000'' @ [CHR 0x0A, CHR 0x0A] @
              ''Keep this in a liquid/higher-yield savings option.'')"
proof -
  have n: "(0 :: nat) \<noteq> 1" "(1 :: nat) \<noteq> 2" "(0 :: nat) \<noteq> 2"
    "(2 :: nat) \<noteq> 1" by simp_all
  have c: "conversation_state (profiles goal_world 2) \<noteq> Some ''getting_goal_amount''"
    "conversation_state (profiles goal_world 2) \<noteq> Some ''getting_goal_time''"
    by (simp_all add: goal_world_def in_state_def)
  have e1: "fst (turn no_hf 0 0 ''9000'' goal_world)
     = Inr (''Goal amount set to '' @
              [CHR 0xC3, CHR 0xA2, CHR 0xE2, CHR 0x80, CHR 0x9A, CHR 0xC2, CHR 0xB9] @
              ''9,000. In how many months do you want to achieve this goal? You can also type 'back' to return to the main menu.'')"
    by (simp add: turn_def goal_world_def ev_run ev_parse ev_text ev_ops ev_fl ev_fmt
        msg_goal_amount_ok_def rupee_def back_hint_def)
  have e2: "stores (snd (turn no_hf 0 0 ''9000'' goal_world)) 0
     = \<lparr>temp_goal_amount = Some (Fin 9000)\<rparr>"
    by (simp add: turn_def goal_world_def ev_run ev_parse ev_text ev_ops ev_fl)
  have e3: "fst (turn no_hf 1 1 ''10'' goal_world)
     = Inr (''To reach your goal of '' @
              [CHR 0xC3, CHR 0xA2, CHR 0xE2, CHR 0x80, CHR 0x9A, CHR 0xC2, CHR 0xB9] @
              ''500 in 10 months, save '' @
              [CHR 0xC3, CHR 0xA2, CHR 0xE2, CHR 0x80, CHR 0x9A, CHR 0xC2, CHR 0xB9] @
              ''50.00 every month.'')"
    by (simp add: turn_def goal_world_def ev_run ev_parse ev_text ev_ops ev_fl ev_fmt
        msg_goal_done_def rupee_def)
  have e4: "fst (turn no_hf 0 2 ''20000'' goal_world)
     = Inr (''For an emergency fund based on '' @
              [CHR 0xC3, CHR 0xA2, CHR 0xE2, CHR 0x80, CHR 0x9A, CHR 0xC2, CHR 0xB9] @
              ''20,000 monthly expenses, aim for:'' @ [CHR 0x0A, CHR 0x0A] @
              ''- 3-month fund: '' @
              [CHR 0xC3, CHR 0xA2, CHR 0xE2, CHR 0x80, CHR 0x9A, CHR 0xC2, CHR 0xB9] @
              ''60,000'' @ [CHR 0x0A] @ ''- 6-month fund: '' @
              [CHR 0xC3, CHR 0xA2, CHR 0xE2, CHR 0x80, CHR 0x9A, CHR 0xC2, CHR 0xB9] @
              ''120,000'' @ [CHR 0x0A, CHR 0x0A] @
              ''Keep this in a liquid/higher-yield savings option.'')"
    by (simp add: turn_def goal_world_def ev_run ev_parse ev_text ev_ops ev_fl ev_fmt
        msg_emergency_done_def rupee_def)
  have g1: "fst (turn no_hf 1 1 ''10'' (snd (turn no_hf 0 0 ''9000'' goal_world)))
     = Inr (''To reach your goal of '' @
              [CHR 0xC3, CHR 0xA2, CHR 0xE2, CHR 0x80, CHR 0x9A, CHR 0xC2, CHR 0xB9] @
              ''500 in 10 months, save '' @
              [CHR 0xC3, CHR 0xA2, CHR 0xE2, CHR 0x80, CHR 0x9A, CHR 0xC2, CHR 0xB9] @
              ''50.00 every month.'')"
    using separate_sessions_noninterference[OF n(1), of 0 1 no_hf "''9000''" goal_world "''10''"]
      n(1) e3 by simp
  have g2: "fst (turn no_hf 1 1 ''10'' (snd (turn no_hf 1 2 ''20000'' goal_world)))
     = Inr (''To reach your goal of '' @
              [CHR 0xC3, CHR 0xA2, CHR 0xE2, CHR 0x80, CHR 0x9A, CHR 0xC2, CHR 0xB9] @
              ''500 in 10 months, save '' @
              [CHR 0xC3, CHR 0xA2, CHR 0xE2, CHR 0x80, CHR 0x9A, CHR 0xC2, CHR 0xB9] @
              ''50.00 every month.'')"
    using separate_sessions_noninterference[OF n(4), of 1 1 no_hf "''20000''" goal_world "''10''"]
      c e3 by simp
  have g3: "fst (turn no_hf 0 2 ''20000'' (snd (turn no_hf 0 0 ''9000'' goal_world)))
     = Inr (''For an emergency fund based on '' @
              [CHR 0xC3, CHR 0xA2, CHR 0xE2, CHR 0x80, CHR 0x9A, CHR 0xC2, CHR 0xB9] @
              ''20,000 monthly expenses, aim for:'' @ [CHR 0x0A, CHR 0x0A] @
              ''- 3-month fund: '' @
              [CHR 0xC3, CHR 0xA2, CHR 0xE2, CHR 0x80, CHR 0x9A, CHR 0xC2, CHR 0xB9] @
              ''60,000'' @ [CHR 0x0A] @ ''- 6-month fund: '' @
              [CHR 0xC3, CHR 0xA2, CHR 0xE2, CHR 0x80, CHR 0x9A, CHR 0xC2, CHR 0xB9] @
              ''120,000'' @ [CHR 0x0A, CHR 0x0A] @
              ''Keep this in a liquid/higher-yield savings option.'')"
    using separate_sessions_noninterference[OF n(3), of 0 0 no_hf "''9000''" goal_world
        "''20000''"] c e4 by simp
  show ?thesis by (intro conjI) (rule n c e1 e2 g1 g2 g3)+
qed

end
